theory Spec2Isabelle
  imports Main "HOL-Library.AList"
begin

section \<open>Python values and exceptions\<close>

text \<open>
  The program is one Python module, \<^verbatim>\<open>function.py\<close>. A Python \<^verbatim>\<open>str\<close> is modelled
  as a \<^typ>\<open>string\<close>, one \<^typ>\<open>char\<close> per code point (code points below 256).
  The values that travel through the request flow (decoded JSON, the tuple or string the
  Document Fetcher returns) are \<open>pyval\<close>s; a \<open>PyDict\<close> lists its items in insertion
  order with unique keys, as a Python \<^verbatim>\<open>dict\<close> does.
\<close>

datatype pyval =
    PyNone
  | PyBool bool
  | PyInt int
  | PyFloat int int  \<comment> \<open>a float by its decimal literal: mantissa and exponent of ten\<close>
  | PyStr string
  | PyList "pyval list"
  | PyTuple "pyval list"
  | PyDict "(string \<times> pyval) list"

text \<open>
  The exceptions of the flow, all of them subclasses of Python's \<^verbatim>\<open>Exception\<close>.
  \<open>LibraryError\<close> is a fault raised inside a collaborator (the storage client, the HTTP
  client, the markup parser, the model client), named by its class.
\<close>

datatype exn =
    AttributeError
  | KeyError
  | IndexError
  | TypeError
  | ValueError
  | LibraryError string

section \<open>Strings: \<^verbatim>\<open>str.strip\<close> and \<^verbatim>\<open>str.join\<close>\<close>

text \<open>
  \<^verbatim>\<open>str.isspace\<close> on one code point below 256: U+0009 to U+000D, U+001C to U+0020,
  U+0085 and U+00A0.
\<close>

definition isspace :: "char \<Rightarrow> bool" where
  "isspace c =
     (let n = (of_char c :: nat)
      in (9 \<le> n \<and> n \<le> 13) \<or> (28 \<le> n \<and> n \<le> 32) \<or> n = 133 \<or> n = 160)"

definition lstrip :: "string \<Rightarrow> string" where
  "lstrip s = dropWhile isspace s"

definition rstrip :: "string \<Rightarrow> string" where
  "rstrip s = rev (dropWhile isspace (rev s))"

definition strip :: "string \<Rightarrow> string" where
  "strip s = rstrip (lstrip s)"

fun join :: "string \<Rightarrow> string list \<Rightarrow> string" where
  "join sep [] = []"
| "join sep [x] = x"
| "join sep (x # y # ys) = x @ sep @ join sep (y # ys)"

section \<open>The Section Extractor\<close>

text \<open>
  \<^verbatim>\<open>extract_headers_and_content(content)\<close> hands \<open>content\<close> to the markup parser
  (\<^verbatim>\<open>BeautifulSoup(content, "html.parser")\<close>) and reads the parsed document only through
  \<^verbatim>\<open>find_all\<close>, \<^verbatim>\<open>tag.name\<close> and \<^verbatim>\<open>tag.get_text()\<close>. The parser is a library, so it
  is a parameter of the model: it maps the content to a \<open>soup\<close>, the tags of the document
  in document order, each with its name and its visible text, or it raises.
\<close>

record tag =
  name :: string
  get_text :: string

type_synonym soup = "tag list"

type_synonym section_map = "(string \<times> string) list"

definition header_names :: "string list" where
  "header_names = [''h1'', ''h2'', ''h3'', ''h4'', ''h5'']"

definition recognised_names :: "string list" where
  "recognised_names = [''h1'', ''h2'', ''h3'', ''h4'', ''h5'', ''p'']"

definition find_all :: "string list \<Rightarrow> soup \<Rightarrow> tag list" where
  "find_all names soup = filter (\<lambda>t. name t \<in> set names) soup"

text \<open>The three local variables of the scan.\<close>

record loop_state =
  content_dict :: section_map
  current_header :: "string option"
  current_content :: "string list"

text \<open>Python's truth value of \<^verbatim>\<open>current_header\<close>: \<^verbatim>\<open>None\<close> and \<^verbatim>\<open>""\<close> are false.\<close>

definition truthy :: "string option \<Rightarrow> bool" where
  "truthy h = (case h of None \<Rightarrow> False | Some s \<Rightarrow> s \<noteq> [])"

text \<open>
  \<^verbatim>\<open>if current_header: content_dict[current_header] = " ".join(current_content).strip()\<close>,
  giving the dictionary afterwards. Assigning to a key of a \<^verbatim>\<open>dict\<close> replaces the value
  in place or appends a new item: \<^const>\<open>AList.update\<close>.
\<close>

definition commit :: "loop_state \<Rightarrow> section_map" where
  "commit st =
     (case current_header st of
        None \<Rightarrow> content_dict st
      | Some h \<Rightarrow>
          if h = [] then content_dict st
          else AList.update h (strip (join '' '' (current_content st))) (content_dict st))"

definition loop_body :: "loop_state \<Rightarrow> tag \<Rightarrow> loop_state" where
  "loop_body st t =
     (if name t \<in> set header_names then
        \<lparr>content_dict = commit st,
         current_header = Some (strip (get_text t)),
         current_content = []\<rparr>
      else if name t = ''p'' \<and> truthy (current_header st) then
        st\<lparr>current_content := current_content st @ [strip (get_text t)]\<rparr>
      else st)"

definition initial_state :: loop_state where
  "initial_state = \<lparr>content_dict = [], current_header = None, current_content = []\<rparr>"

definition scan_tags :: "tag list \<Rightarrow> section_map" where
  "scan_tags ts = commit (foldl loop_body initial_state ts)"

definition extract_headers_and_content ::
  "(pyval \<Rightarrow> exn + soup) \<Rightarrow> pyval \<Rightarrow> exn + section_map" where
  "extract_headers_and_content BeautifulSoup content =
     (case BeautifulSoup content of
        Inl e \<Rightarrow> Inl e
      | Inr soup \<Rightarrow> Inr (scan_tags (find_all recognised_names soup)))"

text \<open>
  A parser that yields a given soup, and the document of the end-to-end scenario:
  the body \<^verbatim>\<open><h2>Style</h2><p>Use semicolons.</p><h2>Style</h2><p>Use 2-space indent.</p>\<close>
  and its four tags.
\<close>

definition parsed_as :: "soup \<Rightarrow> pyval \<Rightarrow> exn + soup" where
  "parsed_as soup content = Inr soup"

definition style_body :: string where
  "style_body = ''<h2>Style</h2><p>Use semicolons.</p><h2>Style</h2><p>Use 2-space indent.</p>''"

definition style_soup :: soup where
  "style_soup =
     [\<lparr>name = ''h2'', get_text = ''Style''\<rparr>,
      \<lparr>name = ''p'', get_text = ''Use semicolons.''\<rparr>,
      \<lparr>name = ''h2'', get_text = ''Style''\<rparr>,
      \<lparr>name = ''p'', get_text = ''Use 2-space indent.''\<rparr>]"

subsection \<open>The extractor's contract in the specification's words\<close>

text \<open>
  The specification speaks of headers H1..Hn, each followed by its paragraphs, after
  paragraphs that precede the first header. \<open>document pre secs\<close> is the tag sequence
  of such a markup; \<open>spec_sections\<close> reads the sections back from a tag sequence:
  each header with the paragraphs between it and the next header (or the end).
\<close>

definition is_header :: "tag \<Rightarrow> bool" where
  "is_header t = (name t \<in> set header_names)"

definition is_paragraph :: "tag \<Rightarrow> bool" where
  "is_paragraph t = (name t = ''p'')"

definition document :: "tag list \<Rightarrow> (tag \<times> tag list) list \<Rightarrow> tag list" where
  "document pre secs = pre @ concat (map (\<lambda>s. fst s # snd s) secs)"

definition sectioned :: "tag list \<Rightarrow> (tag \<times> tag list) list \<Rightarrow> bool" where
  "sectioned pre secs =
     ((\<forall>t \<in> set pre. is_paragraph t) \<and>
      (\<forall>s \<in> set secs. is_header (fst s) \<and> (\<forall>p \<in> set (snd s). is_paragraph p)))"

fun spec_sections :: "tag list \<Rightarrow> (tag \<times> tag list) list" where
  "spec_sections [] = []"
| "spec_sections (t # ts) =
     (if is_header t
      then (t, filter is_paragraph (takeWhile (\<lambda>u. \<not> is_header u) ts)) # spec_sections ts
      else spec_sections ts)"

text \<open>
  The key of a section is its header's trimmed text; its value is the trimmed,
  single-space-joined concatenation of the trimmed texts of its paragraphs.
\<close>

definition spec_key :: "tag \<Rightarrow> string" where
  "spec_key h = strip (get_text h)"

definition spec_value :: "tag list \<Rightarrow> string" where
  "spec_value ps = strip (join '' '' (map (\<lambda>p. strip (get_text p)) ps))"

definition section_key :: "tag \<times> tag list \<Rightarrow> string" where
  "section_key s = spec_key (fst s)"

definition section_value :: "tag \<times> tag list \<Rightarrow> string" where
  "section_value s = spec_value (snd s)"

text \<open>Storing one section under its key; a section whose key is empty stores nothing.\<close>

definition put :: "section_map \<Rightarrow> tag \<times> tag list \<Rightarrow> section_map" where
  "put d s = (if section_key s = [] then d else AList.update (section_key s) (section_value s) d)"

section \<open>The Document Fetcher\<close>

text \<open>
  What \<^verbatim>\<open>requests.get\<close> returns, as far as the code reads it: \<^verbatim>\<open>status_code\<close>,
  \<^verbatim>\<open>text\<close> and the outcome of \<^verbatim>\<open>json()\<close>, which raises when the body is not JSON.
\<close>

record response =
  status_code :: int
  response_text :: string
  json :: "exn + pyval"

text \<open>Sequencing two steps: an exception raised by the first ends the computation.\<close>

definition bind_exn :: "exn + 'a \<Rightarrow> ('a \<Rightarrow> exn + 'b) \<Rightarrow> exn + 'b" where
  "bind_exn m f = (case m of Inl e \<Rightarrow> Inl e | Inr x \<Rightarrow> f x)"

text \<open>\<^verbatim>\<open>d.get(k, default)\<close>: only a \<^verbatim>\<open>dict\<close> has the method.\<close>

definition dict_get :: "pyval \<Rightarrow> string \<Rightarrow> pyval \<Rightarrow> exn + pyval" where
  "dict_get d k dflt =
     (case d of
        PyDict items \<Rightarrow> Inr (case map_of items k of None \<Rightarrow> dflt | Some v \<Rightarrow> v)
      | _ \<Rightarrow> Inl AttributeError)"

text \<open>\<^verbatim>\<open>str(n)\<close> of an \<^verbatim>\<open>int\<close>, as the f-string formats the status code.\<close>

definition digit_char :: "nat \<Rightarrow> char" where
  "digit_char d = char_of (48 + d)"

fun digits :: "nat \<Rightarrow> string" where
  "digits n = (if n < 10 then [digit_char n] else digits (n div 10) @ [digit_char (n mod 10)])"

definition str_int :: "int \<Rightarrow> string" where
  "str_int i = (if i < 0 then CHR ''-'' # digits (nat (- i)) else digits (nat i))"

text \<open>
  \<^verbatim>\<open>get_confluence_page_content\<close>. The HTTP client is a parameter; it is given the
  four arguments from which the code builds the URL and the credentials. The function
  returns a pair (a 2-tuple) on status 200 and a string otherwise.
\<close>

definition get_confluence_page_content ::
  "(pyval \<Rightarrow> pyval \<Rightarrow> pyval \<Rightarrow> pyval \<Rightarrow> exn + response) \<Rightarrow>
   pyval \<Rightarrow> pyval \<Rightarrow> pyval \<Rightarrow> pyval \<Rightarrow> exn + pyval" where
  "get_confluence_page_content requests_get page_id confluence_url email api_token =
     bind_exn (requests_get page_id confluence_url email api_token) (\<lambda>response.
       if status_code response = 200 then
         bind_exn (json response) (\<lambda>data.
         bind_exn (dict_get data ''title'' PyNone) (\<lambda>page_title.
         bind_exn (dict_get data ''body'' (PyDict [])) (\<lambda>body.
         bind_exn (dict_get body ''storage'' (PyDict [])) (\<lambda>storage.
         bind_exn (dict_get storage ''value'' (PyStr ''No content found.'')) (\<lambda>page_content.
           Inr (PyTuple [page_title, page_content]))))))
       else
         Inr (PyStr (''Error: '' @ str_int (status_code response) @ '' - '' @ response_text response)))"

text \<open>An HTTP client that answers every request with a given response.\<close>

definition responding :: "response \<Rightarrow> pyval \<Rightarrow> pyval \<Rightarrow> pyval \<Rightarrow> pyval \<Rightarrow> exn + response" where
  "responding r page_id confluence_url email api_token = Inr r"

section \<open>Prompt assembly and model invocation\<close>

text \<open>
  A \<^verbatim>\<open>string.Template\<close> as the sequence of its literal segments and named
  placeholders; \<^verbatim>\<open>substitute\<close> raises \<^verbatim>\<open>KeyError\<close> at the first placeholder that
  has no value.
\<close>

datatype template_part = Literal string | Placeholder string

fun substitute :: "template_part list \<Rightarrow> (string \<times> string) list \<Rightarrow> exn + string" where
  "substitute [] kws = Inr []"
| "substitute (Literal s # ps) kws = bind_exn (substitute ps kws) (\<lambda>r. Inr (s @ r))"
| "substitute (Placeholder n # ps) kws =
     (case map_of kws n of
        None \<Rightarrow> Inl KeyError
      | Some v \<Rightarrow> bind_exn (substitute ps kws) (\<lambda>r. Inr (v @ r)))"

text \<open>
  The module's fixed texts: \<^verbatim>\<open>output_format\<close> and the two prompt templates, written
  line by line (the lines are joined by the newline character U+000A). Each template
  has the two placeholders \<^verbatim>\<open>$output_format\<close> and \<^verbatim>\<open>$tech_choice_doc\<close>.
\<close>

definition output_format :: string where
  \<open>output_format =
     join [CHR 0x0A]
      ['''',
       ''APIs: '',
       ''1. Use ESM JavaScript, aiming for the latest stable node version: Pass '',
       ''2. If you can, use LLRT (Optional): Fail'',
       ''...'',
       ''Data Pipelines: '',
       ''1. Prefer Python, aiming for the latest stable python version: Pass'',
       ''...'',
       '''']\<close>

definition agent_backend_system_prompt_template :: "template_part list" where
  \<open>agent_backend_system_prompt_template =
     [Literal
       (join [CHR 0x0A]
         ['''',
          ''You are a code review agent at Firemind, an AWS Advanced Partner specializing in AI and ML solutions. '',
          ''Your primary task is to review the backend code of Firemind developers to ensure it aligns with Firemind's technology choices guidelines.'',
          '''',
          ''Instructions:'',
          ''- Review the code against Firemind's technology choices guidelines, using the guidelines as a checklist.'',
          ''- For each guideline, determine whether it has been fully implemented or not. Provide a score of "Complete" or "Incomplete" for each.'',
          ''- Return the results in the specified output format: '']),
      Placeholder ''output_format'',
      Literal
       (join [CHR 0x0A]
         [''.'',
          ''- Use the header and bullet points from the guidelines to reference each specific point when providing your assessment.'',
          '''',
          ''Firemind's technology choice guidelines: '',
          '''']),
      Placeholder ''tech_choice_doc'',
      Literal
       (join [CHR 0x0A]
         ['''',
          '''',
          ''Ensure your feedback is clear and aligned with the expectations for code quality and compliance with Firemind's standards.'',
          ''''])]\<close>

definition agent_frontend_system_prompt_template :: "template_part list" where
  \<open>agent_frontend_system_prompt_template =
     [Literal
       (join [CHR 0x0A]
         ['''',
          ''You are a code review agent at Firemind, an AWS Advanced Partner specializing in AI and ML solutions.  '',
          ''Your primary task is to review the **frontend code** of Firemind developers to ensure it aligns with Firemind's technology choices guidelines.  '',
          '''',
          ''Instructions:'',
          ''- Review the code against **Firemind's frontend technology choices guidelines**, using them as a checklist.  '',
          ''- Assess **code quality, performance, accessibility, UI/UX best practices, and maintainability**.  '',
          ''- For each guideline, determine whether it has been fully implemented or not. Provide a score of **"Complete" or "Incomplete"** for each.  '',
          ''- Return the results in the specified output format: **'']),
      Placeholder ''output_format'',
      Literal
       (join [CHR 0x0A]
         [''**.  '',
          ''- Use the **header and bullet points** from the guidelines to reference each specific point when providing your assessment.  '',
          '''',
          ''Firemind's technology choice guidelines: '',
          '''']),
      Placeholder ''tech_choice_doc'',
      Literal
       (join [CHR 0x0A]
         ['''',
          '''',
          ''Ensure your feedback is clear and aligned with the expectations for code quality and compliance with Firemind's standards.'',
          ''''])]\<close>

text \<open>Subscripting: \<^verbatim>\<open>v[k]\<close> with a string key, and \<^verbatim>\<open>v[0]\<close>.\<close>

definition getitem_str :: "pyval \<Rightarrow> string \<Rightarrow> exn + pyval" where
  "getitem_str v k =
     (case v of
        PyDict items \<Rightarrow> (case map_of items k of None \<Rightarrow> Inl KeyError | Some x \<Rightarrow> Inr x)
      | _ \<Rightarrow> Inl TypeError)"

definition getitem_first :: "pyval \<Rightarrow> exn + pyval" where
  "getitem_first v =
     (case v of
        PyList xs \<Rightarrow> (case xs of [] \<Rightarrow> Inl IndexError | x # _ \<Rightarrow> Inr x)
      | PyTuple xs \<Rightarrow> (case xs of [] \<Rightarrow> Inl IndexError | x # _ \<Rightarrow> Inr x)
      | PyStr s \<Rightarrow> (case s of [] \<Rightarrow> Inl IndexError | c # _ \<Rightarrow> Inr (PyStr [c]))
      | PyDict items \<Rightarrow> Inl KeyError
      | _ \<Rightarrow> Inl TypeError)"

text \<open>
  The process-wide names of the module and its collaborators: the configuration read
  from the environment, the imported \<^verbatim>\<open>MODEL_IDS\<close> table, the storage client (the
  object's body, read and decoded), the HTTP client, the markup parser, the model
  client's \<^verbatim>\<open>converse\<close>, and Python's built-in \<^verbatim>\<open>float\<close> and \<^verbatim>\<open>str\<close> of a
  \<^verbatim>\<open>dict\<close>.
\<close>

record env =
  CODE_BUCKET :: pyval
  CONFLUENCE_URL :: pyval
  EMAIL :: pyval
  CONFLUENCE_API_TOKEN :: pyval
  MODEL_IDS :: pyval
  s3_get_object :: "pyval \<Rightarrow> pyval \<Rightarrow> exn + string"
  requests_get :: "pyval \<Rightarrow> pyval \<Rightarrow> pyval \<Rightarrow> pyval \<Rightarrow> exn + response"
  BeautifulSoup :: "pyval \<Rightarrow> exn + soup"
  converse :: "pyval \<Rightarrow> pyval \<Rightarrow> pyval \<Rightarrow> pyval \<Rightarrow> exn + pyval"
  py_float :: "pyval \<Rightarrow> exn + pyval"
  py_str_dict :: "section_map \<Rightarrow> string"

definition retrieve_code_file_from_s3 :: "env \<Rightarrow> pyval \<Rightarrow> exn + string" where
  "retrieve_code_file_from_s3 env file_key = s3_get_object env (CODE_BUCKET env) file_key"

definition inference_config :: pyval where
  "inference_config =
     PyDict [(''temperature'', PyFloat 2 (- 1)), (''maxTokens'', PyInt 4000), (''topP'', PyInt 0)]"

definition invoke_bedrock :: "env \<Rightarrow> pyval \<Rightarrow> pyval \<Rightarrow> pyval \<Rightarrow> exn + pyval \<times> pyval" where
  "invoke_bedrock env model_id messages system_prompt =
     bind_exn (converse env model_id messages system_prompt inference_config) (\<lambda>response.
     bind_exn (bind_exn (bind_exn (getitem_str response ''usage'')
                 (\<lambda>u. getitem_str u ''inputTokens'')) (py_float env)) (\<lambda>input_tokens.
     bind_exn (bind_exn (bind_exn (getitem_str response ''usage'')
                 (\<lambda>u. getitem_str u ''outputTokens'')) (py_float env)) (\<lambda>output_tokens.
     bind_exn (bind_exn (bind_exn (getitem_str response ''usage'')
                 (\<lambda>u. getitem_str u ''totalTokens'')) (py_float env)) (\<lambda>total_tokens.
     bind_exn (bind_exn (bind_exn (getitem_str response ''metrics'')
                 (\<lambda>u. getitem_str u ''latencyMs'')) (py_float env)) (\<lambda>latency.
       Inr (response,
            PyDict [(''input_tokens'', input_tokens), (''output_tokens'', output_tokens),
                    (''total_tokens'', total_tokens), (''latency'', latency)]))))))"

definition format_message :: "string \<Rightarrow> string \<Rightarrow> pyval" where
  "format_message role content =
     PyList [PyDict [(''role'', PyStr role), (''content'', PyList [PyDict [(''text'', PyStr content)]])]]"

definition format_prompt :: "string \<Rightarrow> pyval" where
  "format_prompt prompt = PyList [PyDict [(''text'', PyStr prompt)]]"

definition generate_output :: "env \<Rightarrow> pyval \<Rightarrow> pyval \<Rightarrow> pyval \<Rightarrow> exn + pyval" where
  "generate_output env model_id system_prompt messages =
     bind_exn (invoke_bedrock env model_id messages system_prompt) (\<lambda>r.
     bind_exn (getitem_str (fst r) ''output'') (\<lambda>output.
     bind_exn (getitem_str output ''message'') (\<lambda>message.
     bind_exn (getitem_str message ''content'') (\<lambda>content.
     bind_exn (getitem_first content) (\<lambda>first.
       getitem_str first ''text'')))))"

section \<open>The request flow\<close>

text \<open>
  \<^verbatim>\<open>title, content = ...\<close>: unpacking into two targets iterates the value. A tuple or
  list of two items, a string of two characters and a dictionary of two keys unpack;
  any other length raises \<^verbatim>\<open>ValueError\<close>, a value that cannot be iterated
  \<^verbatim>\<open>TypeError\<close>.
\<close>

definition unpack_list :: "pyval list \<Rightarrow> exn + pyval \<times> pyval" where
  "unpack_list xs = (case xs of [a, b] \<Rightarrow> Inr (a, b) | _ \<Rightarrow> Inl ValueError)"

definition unpack2 :: "pyval \<Rightarrow> exn + pyval \<times> pyval" where
  "unpack2 v =
     (case v of
        PyTuple xs \<Rightarrow> unpack_list xs
      | PyList xs \<Rightarrow> unpack_list xs
      | PyStr s \<Rightarrow> unpack_list (map (\<lambda>c. PyStr [c]) s)
      | PyDict items \<Rightarrow> unpack_list (map (\<lambda>kv. PyStr (fst kv)) items)
      | _ \<Rightarrow> Inl TypeError)"

definition handle_code_review_request ::
  "env \<Rightarrow> pyval \<Rightarrow> pyval \<Rightarrow> template_part list \<Rightarrow> exn + pyval" where
  "handle_code_review_request env page_id file_key system_prompt_template =
     bind_exn (retrieve_code_file_from_s3 env file_key) (\<lambda>code_file.
     bind_exn (get_confluence_page_content (requests_get env) page_id
                 (CONFLUENCE_URL env) (EMAIL env) (CONFLUENCE_API_TOKEN env)) (\<lambda>fetched.
     bind_exn (unpack2 fetched) (\<lambda>title_content.
     bind_exn (extract_headers_and_content (BeautifulSoup env) (snd title_content)) (\<lambda>tech_choice_doc.
     bind_exn (substitute system_prompt_template
                 [(''output_format'', output_format),
                  (''tech_choice_doc'', py_str_dict env tech_choice_doc)]) (\<lambda>system_prompt.
     bind_exn (bind_exn (getitem_str (MODEL_IDS env) ''nova-micro'') (\<lambda>m. getitem_str m ''id'')) (\<lambda>model_id.
       generate_output env model_id (format_prompt system_prompt) (format_message ''user'' code_file)))))))"

text \<open>
  An endpoint either returns a value, which the web framework sends with status 200,
  or raises \<^verbatim>\<open>HTTPException(status_code, detail)\<close>. Its argument is the outcome of
  \<^verbatim>\<open>await req.json()\<close>.
\<close>

datatype outcome = Return pyval | HTTPException int string

definition http_status :: "outcome \<Rightarrow> int" where
  "http_status out = (case out of Return v \<Rightarrow> 200 | HTTPException c d \<Rightarrow> c)"

text \<open>
  The body of the \<^verbatim>\<open>try\<close> block, the same in both endpoints but for the template;
  \<^verbatim>\<open>except Exception\<close> turns whatever it raises into the one \<^verbatim>\<open>HTTPException\<close>.
\<close>

definition request_flow :: "env \<Rightarrow> exn + pyval \<Rightarrow> template_part list \<Rightarrow> exn + pyval" where
  "request_flow env req_json system_prompt_template =
     bind_exn req_json (\<lambda>body.
     bind_exn (dict_get body ''page_id'' PyNone) (\<lambda>page_id.
     bind_exn (dict_get body ''file_key'' PyNone) (\<lambda>file_key.
       handle_code_review_request env page_id file_key system_prompt_template)))"

definition backend_agent :: "env \<Rightarrow> exn + pyval \<Rightarrow> outcome" where
  "backend_agent env req_json =
     (case request_flow env req_json agent_backend_system_prompt_template of
        Inr response \<Rightarrow> Return response
      | Inl e \<Rightarrow> HTTPException 500 ''Something went wrong'')"

definition frontend_agent :: "env \<Rightarrow> exn + pyval \<Rightarrow> outcome" where
  "frontend_agent env req_json =
     (case request_flow env req_json agent_frontend_system_prompt_template of
        Inr response \<Rightarrow> Return response
      | Inl e \<Rightarrow> HTTPException 500 ''Something went wrong'')"

section \<open>Example inputs\<close>

text \<open>
  A document with a leading paragraph and two sections: the header \<open>Intro\<close> with two
  paragraphs and the header \<open>Next\<close> with none.
\<close>

definition intro_pre :: "tag list" where
  "intro_pre = [\<lparr>name = ''p'', get_text = ''Preface.''\<rparr>]"

definition intro_secs :: "(tag \<times> tag list) list" where
  "intro_secs =
     [(\<lparr>name = ''h1'', get_text = '' Intro ''\<rparr>,
       [\<lparr>name = ''p'', get_text = ''a ''\<rparr>, \<lparr>name = ''p'', get_text = '' b''\<rparr>]),
      (\<lparr>name = ''h3'', get_text = ''Next''\<rparr>, [])]"

text \<open>The two sections of the end-to-end scenario's document, both headed \<open>Style\<close>.\<close>

definition style_first :: "tag \<times> tag list" where
  "style_first =
     (\<lparr>name = ''h2'', get_text = ''Style''\<rparr>, [\<lparr>name = ''p'', get_text = ''Use semicolons.''\<rparr>])"

definition style_last :: "tag \<times> tag list" where
  "style_last =
     (\<lparr>name = ''h2'', get_text = ''Style''\<rparr>, [\<lparr>name = ''p'', get_text = ''Use 2-space indent.''\<rparr>])"

text \<open>
  A parser that rejects its input: the standard library's \<^verbatim>\<open>html.parser\<close> fails on the
  marked section \<^verbatim>\<open><![foo]>\<close>, which the markup library reports as
  \<^verbatim>\<open>ParserRejectedMarkup\<close>.
\<close>

definition rejecting :: "exn \<Rightarrow> pyval \<Rightarrow> exn + soup" where
  "rejecting e content = Inl e"

text \<open>A document without any header or paragraph tag.\<close>

definition bare_soup :: soup where
  "bare_soup = [\<lparr>name = ''div'', get_text = ''x''\<rparr>, \<lparr>name = ''span'', get_text = ''y''\<rparr>]"

text \<open>A document whose first header is directly followed by another header.\<close>

definition gap_soup :: soup where
  "gap_soup =
     [\<lparr>name = ''h1'', get_text = ''Title''\<rparr>,
      \<lparr>name = ''h2'', get_text = ''Rules''\<rparr>,
      \<lparr>name = ''p'', get_text = ''Be kind.''\<rparr>,
      \<lparr>name = ''h2'', get_text = ''End''\<rparr>]"

text \<open>A document whose second header has only white space as its text.\<close>

definition blank_soup :: soup where
  "blank_soup =
     [\<lparr>name = ''h1'', get_text = ''Intro''\<rparr>,
      \<lparr>name = ''p'', get_text = ''a''\<rparr>,
      \<lparr>name = ''h2'', get_text = ''  ''\<rparr>,
      \<lparr>name = ''p'', get_text = ''lost''\<rparr>,
      \<lparr>name = ''h2'', get_text = ''Next''\<rparr>,
      \<lparr>name = ''p'', get_text = ''b''\<rparr>]"

text \<open>
  Responses of the wiki: a failure with status 404, the page of the end-to-end scenario,
  and a success whose JSON object is empty.
\<close>

definition not_found_response :: response where
  "not_found_response =
     \<lparr>status_code = 404, response_text = ''Not Found'', json = Inl (LibraryError ''JSONDecodeError'')\<rparr>"

definition style_response :: response where
  "style_response =
     \<lparr>status_code = 200, response_text = ''(the JSON text of the page)'',
      json = Inr (PyDict [(''id'', PyStr ''3539730433''), (''title'', PyStr ''Standards''),
                          (''body'', PyDict [(''storage'', PyDict [(''value'', PyStr style_body)])])])\<rparr>"

definition bare_response :: response where
  "bare_response = \<lparr>status_code = 200, response_text = ''{}'', json = Inr (PyDict [])\<rparr>"

text \<open>
  Successes whose body is not as the fetcher expects: the JSON objects
  \<^verbatim>\<open>{"body": null}\<close> and \<^verbatim>\<open>{"body": {"storage": null}}\<close>, the JSON list
  \<^verbatim>\<open>[]\<close>, and a body that is not JSON.
\<close>

definition null_body_response :: response where
  \<open>null_body_response =
     \<lparr>status_code = 200, response_text = ''{"body": null}'',
      json = Inr (PyDict [(''body'', PyNone)])\<rparr>\<close>

definition null_storage_response :: response where
  \<open>null_storage_response =
     \<lparr>status_code = 200, response_text = ''{"body": {"storage": null}}'',
      json = Inr (PyDict [(''body'', PyDict [(''storage'', PyNone)])])\<rparr>\<close>

definition list_response :: response where
  "list_response = \<lparr>status_code = 200, response_text = ''[]'', json = Inr (PyList [])\<rparr>"

definition garbled_response :: response where
  "garbled_response =
     \<lparr>status_code = 200, response_text = ''<html>Sign in</html>'',
      json = Inl (LibraryError ''JSONDecodeError'')\<rparr>"

text \<open>
  A model reply, a \<^verbatim>\<open>float\<close> that converts numbers and rejects every string, and a
  rendering of a Section Map whose texts need no escaping; with them an environment in
  which every collaborator answers, one whose storage has no such key, and one whose
  wiki answers 404; and a request body.
\<close>

definition model_reply :: pyval where
  "model_reply =
     PyDict [(''output'', PyDict [(''message'', PyDict [(''role'', PyStr ''assistant''),
                (''content'', PyList [PyDict [(''text'', PyStr ''Style: 1. Use semicolons: Complete'')]])])]),
             (''usage'', PyDict [(''inputTokens'', PyInt 120), (''outputTokens'', PyInt 9), (''totalTokens'', PyInt 129)]),
             (''metrics'', PyDict [(''latencyMs'', PyInt 350)])]"

definition number_float :: "pyval \<Rightarrow> exn + pyval" where
  "number_float v =
     (case v of
        PyInt i \<Rightarrow> Inr (PyFloat i 0)
      | PyFloat m e \<Rightarrow> Inr (PyFloat m e)
      | PyBool b \<Rightarrow> Inr (PyFloat (if b then 1 else 0) 0)
      | PyStr s \<Rightarrow> Inl ValueError
      | _ \<Rightarrow> Inl TypeError)"

definition plain_str_dict :: "section_map \<Rightarrow> string" where
  "plain_str_dict d =
     ''{'' @ join '', '' (map (\<lambda>kv. [CHR 0x27] @ fst kv @ [CHR 0x27] @ '': '' @ [CHR 0x27] @ snd kv @ [CHR 0x27]) d) @ ''}''"

definition working_env :: env where
  "working_env =
     \<lparr>CODE_BUCKET = PyStr ''code-bucket'',
      CONFLUENCE_URL = PyStr ''https://wiki.example'',
      EMAIL = PyStr ''reviewer@example.com'',
      CONFLUENCE_API_TOKEN = PyStr ''token'',
      MODEL_IDS = PyDict [(''nova-micro'', PyDict [(''id'', PyStr ''amazon.nova-micro-v1:0'')])],
      s3_get_object = (\<lambda>bucket key. Inr ''console.log(1)''),
      requests_get = responding style_response,
      BeautifulSoup = parsed_as style_soup,
      converse = (\<lambda>model_id messages system config. Inr model_reply),
      py_float = number_float,
      py_str_dict = plain_str_dict\<rparr>"

definition missing_file_env :: env where
  "missing_file_env = working_env\<lparr>s3_get_object := (\<lambda>bucket key. Inl (LibraryError ''NoSuchKey''))\<rparr>"

definition wiki_down_env :: env where
  "wiki_down_env = working_env\<lparr>requests_get := responding not_found_response\<rparr>"

definition review_request :: pyval where
  "review_request = PyDict [(''page_id'', PyStr ''3539730433''), (''file_key'', PyStr ''review.js'')]"

section \<open>The scan computes the sections\<close>

lemma commit_not_truthy: "\<not> truthy (current_header st) \<Longrightarrow> commit st = content_dict st"
  by (auto simp: commit_def truthy_def split: option.splits)

lemma commit_header:
  "commit \<lparr>content_dict = d, current_header = Some (spec_key t),
           current_content = map (\<lambda>p. strip (get_text p)) ps\<rparr> = put d (t, ps)"
  by (simp add: commit_def put_def section_key_def section_value_def spec_value_def)

lemma scan_general:
  "commit (foldl loop_body st ts) =
   foldl put
     (commit (st\<lparr>current_content := current_content st @
         map (\<lambda>p. strip (get_text p)) (filter is_paragraph (takeWhile (\<lambda>u. \<not> is_header u) ts))\<rparr>))
     (spec_sections ts)"
proof (induction ts arbitrary: st)
  case Nil
  show ?case by simp
next
  case (Cons t ts)
  show ?case
  proof (cases "is_header t")
    case True
    then have body: "loop_body st t =
        \<lparr>content_dict = commit st, current_header = Some (spec_key t), current_content = []\<rparr>"
      by (simp add: loop_body_def is_header_def spec_key_def)
    from True body show ?thesis
      using Cons.IH [of "loop_body st t"] by (simp add: commit_header)
  next
    case False
    show ?thesis
    proof (cases "is_paragraph t \<and> truthy (current_header st)")
      case True
      with False have body:
        "loop_body st t = st\<lparr>current_content := current_content st @ [strip (get_text t)]\<rparr>"
        by (simp add: loop_body_def is_header_def is_paragraph_def)
      from True False body show ?thesis
        using Cons.IH [of "loop_body st t"] by simp
    next
      case unchanged: False
      with False have body: "loop_body st t = st"
        by (auto simp add: loop_body_def is_header_def is_paragraph_def)
      show ?thesis
      proof (cases "is_paragraph t")
        case True
        with unchanged have "\<not> truthy (current_header st)" by simp
        then show ?thesis using False body Cons.IH [of st] True
          by (simp add: commit_not_truthy)
      next
        case False
        then show ?thesis using \<open>\<not> is_header t\<close> body Cons.IH [of st] by simp
      qed
    qed
  qed
qed

lemma scan_tags_spec: "scan_tags ts = foldl put [] (spec_sections ts)"
  unfolding scan_tags_def scan_general
  by (simp add: initial_state_def commit_def)

lemma extract_parsed:
  "parse content = Inr soup \<Longrightarrow>
   extract_headers_and_content parse content =
     Inr (foldl put [] (spec_sections (find_all recognised_names soup)))"
  by (simp add: extract_headers_and_content_def scan_tags_spec)

section \<open>Tag sequences and their sections\<close>

lemma is_paragraph_not_header: "is_paragraph t \<Longrightarrow> \<not> is_header t"
  by (simp add: is_paragraph_def is_header_def header_names_def)

lemma recognised_cases: "name t \<in> set recognised_names \<longleftrightarrow> is_header t \<or> is_paragraph t"
  by (auto simp: recognised_names_def is_header_def is_paragraph_def header_names_def)

lemma find_all_append: "find_all names (xs @ ys) = find_all names xs @ find_all names ys"
  by (simp add: find_all_def)

lemma find_all_recognised: "\<forall>t \<in> set (find_all recognised_names soup). is_header t \<or> is_paragraph t"
  by (simp add: find_all_def recognised_cases)

lemma find_all_id: "\<forall>t \<in> set ts. is_header t \<or> is_paragraph t \<Longrightarrow> find_all recognised_names ts = ts"
  by (simp add: find_all_def recognised_cases)

lemma takeWhile_stop: "\<not> P h \<Longrightarrow> takeWhile P (xs @ h # rest) = takeWhile P xs"
  by (induction xs) auto

lemma spec_sections_no_header:
  "\<forall>t \<in> set pre. \<not> is_header t \<Longrightarrow> spec_sections (pre @ ts) = spec_sections ts"
  by (induction pre) auto

lemma spec_sections_append_header:
  "is_header h \<Longrightarrow> spec_sections (xs @ h # rest) = spec_sections xs @ spec_sections (h # rest)"
  by (induction xs) (auto simp: takeWhile_stop)

lemma spec_sections_append:
  "rest = [] \<or> is_header (hd rest) \<Longrightarrow> spec_sections (xs @ rest) = spec_sections xs @ spec_sections rest"
  by (cases rest) (auto simp: spec_sections_append_header)

lemma takeWhile_paragraphs:
  assumes "\<forall>p \<in> set ps. \<not> is_header p" and "rest = [] \<or> is_header (hd rest)"
  shows "takeWhile (\<lambda>u. \<not> is_header u) (ps @ rest) = ps"
proof (cases rest)
  case Nil
  with assms(1) show ?thesis by simp
next
  case (Cons h rest')
  with assms(2) have "is_header h" by simp
  with assms(1) Cons show ?thesis by (simp add: takeWhile_stop)
qed

lemma concat_sections_start:
  "\<forall>s \<in> set secs. is_header (fst s) \<Longrightarrow>
   concat (map (\<lambda>s. fst s # snd s) secs) = [] \<or>
   is_header (hd (concat (map (\<lambda>s. fst s # snd s) secs)))"
  by (cases secs) auto

lemma spec_sections_concat:
  "\<forall>s \<in> set secs. is_header (fst s) \<and> (\<forall>p \<in> set (snd s). is_paragraph p) \<Longrightarrow>
   spec_sections (concat (map (\<lambda>s. fst s # snd s) secs)) = secs"
proof (induction secs)
  case Nil
  show ?case by simp
next
  case (Cons s secs)
  let ?rest = "concat (map (\<lambda>s. fst s # snd s) secs)"
  from Cons.prems have hs: "is_header (fst s)" and ps: "\<forall>p \<in> set (snd s). is_paragraph p"
    and rest: "\<forall>s \<in> set secs. is_header (fst s) \<and> (\<forall>p \<in> set (snd s). is_paragraph p)"
    by simp_all
  from rest have start: "?rest = [] \<or> is_header (hd ?rest)"
    using concat_sections_start [of secs] by blast
  from ps have nh: "\<forall>p \<in> set (snd s). \<not> is_header p"
    by (auto dest: is_paragraph_not_header)
  have "spec_sections (snd s @ ?rest) = spec_sections ?rest"
    using nh by (rule spec_sections_no_header)
  moreover have "takeWhile (\<lambda>u. \<not> is_header u) (snd s @ ?rest) = snd s"
    using nh start by (rule takeWhile_paragraphs)
  moreover have "filter is_paragraph (snd s) = snd s"
    using ps by simp
  ultimately show ?case
    using hs Cons.IH [OF rest] by simp
qed

lemma spec_sections_document: "sectioned pre secs \<Longrightarrow> spec_sections (document pre secs) = secs"
proof -
  assume s: "sectioned pre secs"
  then have "\<forall>t \<in> set pre. \<not> is_header t"
    by (auto simp: sectioned_def dest: is_paragraph_not_header)
  with s show ?thesis
    by (simp add: sectioned_def document_def spec_sections_no_header spec_sections_concat)
qed

text \<open>Every sequence that \<open>find_all\<close> returns is such a document.\<close>

lemma document_spec_sections:
  "\<forall>t \<in> set ts. is_header t \<or> is_paragraph t \<Longrightarrow>
   document (takeWhile (\<lambda>u. \<not> is_header u) ts) (spec_sections ts) = ts"
proof (induction ts)
  case Nil
  show ?case by (simp add: document_def)
next
  case (Cons t ts)
  then have IH: "document (takeWhile (\<lambda>u. \<not> is_header u) ts) (spec_sections ts) = ts"
    and par: "\<forall>t \<in> set ts. \<not> is_header t \<longrightarrow> is_paragraph t"
    by auto
  from par have "filter is_paragraph (takeWhile (\<lambda>u. \<not> is_header u) ts) =
      takeWhile (\<lambda>u. \<not> is_header u) ts"
    by (metis (mono_tags, lifting) filter_True set_takeWhileD)
  with IH show ?case
    by (auto simp: document_def)
qed

lemma spec_sections_paragraphs:
  "\<forall>s \<in> set (spec_sections ts). is_header (fst s) \<and> (\<forall>p \<in> set (snd s). is_paragraph p)"
  by (induction ts) auto

lemma every_soup_sectioned:
  "\<exists>pre secs. find_all recognised_names soup = document pre secs \<and> sectioned pre secs"
proof -
  let ?ts = "find_all recognised_names soup"
  let ?pre = "takeWhile (\<lambda>u. \<not> is_header u) ?ts"
  have tags: "\<forall>t \<in> set ?ts. is_header t \<or> is_paragraph t"
    by (rule find_all_recognised)
  then have doc: "document ?pre (spec_sections ?ts) = ?ts"
    by (rule document_spec_sections)
  have "\<forall>t \<in> set ?pre. is_paragraph t"
  proof
    fix t
    assume t: "t \<in> set ?pre"
    then have "t \<in> set ?ts" by (rule set_takeWhileD [THEN conjunct1])
    moreover from t have "\<not> is_header t" by (rule set_takeWhileD [THEN conjunct2])
    ultimately show "is_paragraph t" using tags by blast
  qed
  then have "sectioned ?pre (spec_sections ?ts)"
    using spec_sections_paragraphs [of ?ts] by (simp add: sectioned_def)
  with doc show ?thesis by metis
qed

section \<open>The dictionary built from the sections\<close>

lemma put_keys: "fst ` set (put d s) = fst ` set d \<union> ({section_key s} - {[]})"
  by (simp add: put_def AList.dom_update)

lemma foldl_put_keys:
  "fst ` set (foldl put d secs) = fst ` set d \<union> (section_key ` set secs - {[]})"
proof (induction secs arbitrary: d)
  case Nil
  show ?case by simp
next
  case (Cons s secs)
  have "fst ` set (foldl put (put d s) secs) =
      fst ` set (put d s) \<union> (section_key ` set secs - {[]})"
    by (rule Cons.IH)
  then show ?case by (auto simp: put_keys)
qed

lemma foldl_put_distinct: "distinct (map fst d) \<Longrightarrow> distinct (map fst (foldl put d secs))"
  by (induction secs arbitrary: d) (auto simp: put_def AList.distinct_update)

lemma map_of_put_other: "section_key s \<noteq> k \<Longrightarrow> map_of (put d s) k = map_of d k"
  by (simp add: put_def AList.update_conv')

lemma map_of_put_same:
  "section_key s \<noteq> [] \<Longrightarrow> map_of (put d s) (section_key s) = Some (section_value s)"
  by (simp add: put_def AList.update_conv')

lemma put_empty_key: "section_key s = [] \<Longrightarrow> put d s = d"
  by (simp add: put_def)

lemma map_of_foldl_put_other:
  "k \<notin> section_key ` set secs \<Longrightarrow> map_of (foldl put d secs) k = map_of d k"
  by (induction secs arbitrary: d) (auto simp: map_of_put_other)

lemma map_of_foldl_put_last:
  assumes "section_key s \<noteq> []" and "section_key s \<notin> section_key ` set ys"
  shows "map_of (foldl put d (xs @ s # ys)) (section_key s) = Some (section_value s)"
  using assms by (simp add: map_of_foldl_put_other map_of_put_same)

lemma length_distinct_keys: "distinct (map fst m) \<Longrightarrow> length m = card (fst ` set m)"
  by (metis distinct_card length_map set_map)

section \<open>The claims about the Section Extractor\<close>

text \<open>
  C1 (as amended). For every markup whose recognised tags are paragraphs \<open>pre\<close> followed by
  headers H1..Hn, each followed by its paragraphs, where every header's trimmed text is
  not empty: the extractor returns a Section Map whose keys are exactly the trimmed header
  texts, each once, so n keys when the texts differ and as many as there are different
  texts otherwise; and the value under the trimmed text of a header that does not recur
  later is the trimmed, single-space-joined concatenation of the trimmed texts of the
  paragraphs between that header and the next header or the end of the document.
\<close>

theorem extractor_sections:
  assumes parse: "parse content = Inr soup"
    and doc: "find_all recognised_names soup = document pre secs"
    and wf: "sectioned pre secs"
    and keys: "\<forall>s \<in> set secs. section_key s \<noteq> []"
  shows "\<exists>m. extract_headers_and_content parse content = Inr m
     \<and> distinct (map fst m)
     \<and> fst ` set m = section_key ` set secs
     \<and> length m = card (section_key ` set secs)
     \<and> (distinct (map section_key secs) \<longrightarrow> length m = length secs)
     \<and> (\<forall>xs s ys. secs = xs @ s # ys \<and> section_key s \<notin> section_key ` set ys
            \<longrightarrow> map_of m (section_key s) = Some (section_value s))"
proof -
  let ?m = "foldl put [] secs"
  from wf have "spec_sections (document pre secs) = secs"
    by (rule spec_sections_document)
  with parse doc have res: "extract_headers_and_content parse content = Inr ?m"
    by (simp add: extract_parsed)
  have dist: "distinct (map fst ?m)"
    by (rule foldl_put_distinct) simp
  from keys have "[] \<notin> section_key ` set secs" by force
  then have dom: "fst ` set ?m = section_key ` set secs"
    by (simp add: foldl_put_keys)
  from dist dom have len: "length ?m = card (section_key ` set secs)"
    by (simp add: length_distinct_keys)
  have full: "distinct (map section_key secs) \<longrightarrow> length ?m = length secs"
  proof
    assume "distinct (map section_key secs)"
    then have "card (set (map section_key secs)) = length (map section_key secs)"
      by (rule distinct_card)
    with len show "length ?m = length secs" by simp
  qed
  have vals: "\<forall>xs s ys. secs = xs @ s # ys \<and> section_key s \<notin> section_key ` set ys
            \<longrightarrow> map_of ?m (section_key s) = Some (section_value s)"
  proof (intro allI impI, elim conjE)
    fix xs s ys
    assume split: "secs = xs @ s # ys" and last: "section_key s \<notin> section_key ` set ys"
    from split keys have nonempty: "section_key s \<noteq> []" by simp
    from nonempty last have "map_of (foldl put [] (xs @ s # ys)) (section_key s) = Some (section_value s)"
      by (rule map_of_foldl_put_last)
    with split show "map_of ?m (section_key s) = Some (section_value s)"
      by simp
  qed
  from res dist dom len full vals show ?thesis by blast
qed

text \<open>
  The theorem at the example document: its hypotheses hold there, and the extractor
  returns the two sections.
\<close>

theorem extractor_sections_witness:
  "parsed_as (document intro_pre intro_secs) (PyStr ''doc'') = Inr (document intro_pre intro_secs)
   \<and> sectioned intro_pre intro_secs
   \<and> list_all (\<lambda>s. section_key s \<noteq> []) intro_secs
   \<and> extract_headers_and_content (parsed_as (document intro_pre intro_secs)) (PyStr ''doc'')
       = Inr [(''Intro'', ''a b''), (''Next'', '''')]
   \<and> (\<exists>m. extract_headers_and_content (parsed_as (document intro_pre intro_secs)) (PyStr ''doc'') = Inr m
        \<and> length m = length intro_secs)"
proof -
  have p: "parsed_as (document intro_pre intro_secs) (PyStr ''doc'') = Inr (document intro_pre intro_secs)"
    by (simp add: parsed_as_def)
  have wf: "sectioned intro_pre intro_secs"
    by code_simp
  have k: "list_all (\<lambda>s. section_key s \<noteq> []) intro_secs"
    by code_simp
  have d: "find_all recognised_names (document intro_pre intro_secs) = document intro_pre intro_secs"
    by code_simp
  have dk: "distinct (map section_key intro_secs)"
    by code_simp
  have v: "extract_headers_and_content (parsed_as (document intro_pre intro_secs)) (PyStr ''doc'')
       = Inr [(''Intro'', ''a b''), (''Next'', '''')]"
    by code_simp
  from k have k': "\<forall>s \<in> set intro_secs. section_key s \<noteq> []"
    by (simp add: list_all_iff)
  from extractor_sections [of "parsed_as (document intro_pre intro_secs)" "PyStr ''doc''"
      "document intro_pre intro_secs" intro_pre intro_secs, OF p d wf k'] dk
  have "\<exists>m. extract_headers_and_content (parsed_as (document intro_pre intro_secs)) (PyStr ''doc'') = Inr m
        \<and> length m = length intro_secs"
    by blast
  with p wf k v show ?thesis by blast
qed

text \<open>
  C1 as stated fails where a header's trimmed text is empty: the markup
  \<^verbatim>\<open><h1> </h1><p>x</p>\<close> has one header followed by one paragraph, and the
  Section Map has no key.
\<close>

theorem extractor_sections_counterexample:
  "sectioned [] [(\<lparr>name = ''h1'', get_text = '' ''\<rparr>, [\<lparr>name = ''p'', get_text = ''x''\<rparr>])]
   \<and> extract_headers_and_content
        (parsed_as (document [] [(\<lparr>name = ''h1'', get_text = '' ''\<rparr>, [\<lparr>name = ''p'', get_text = ''x''\<rparr>])]))
        (PyStr ''<h1> </h1><p>x</p>'') = Inr []"
  by code_simp

section \<open>Further facts about sections\<close>

lemma count_list_distinct: "distinct xs \<Longrightarrow> x \<in> set xs \<Longrightarrow> count_list xs x = 1"
  by (induction xs) auto

lemma strip_empty: "strip [] = []"
  by (simp add: strip_def rstrip_def lstrip_def)

lemma spec_value_empty: "spec_value [] = []"
  by (simp add: spec_value_def strip_empty)

lemma spec_sections_headers: "fst ` set (spec_sections ts) = {t \<in> set ts. is_header t}"
  by (induction ts) auto

lemma spec_sections_keys: "section_key ` set (spec_sections ts) = spec_key ` {t \<in> set ts. is_header t}"
proof -
  have "section_key ` set (spec_sections ts) = spec_key ` (fst ` set (spec_sections ts))"
    by (simp add: image_image section_key_def)
  then show ?thesis by (simp only: spec_sections_headers)
qed

lemma spec_sections_no_headers: "\<forall>t \<in> set ts. \<not> is_header t \<Longrightarrow> spec_sections ts = []"
  by (induction ts) auto

lemma spec_sections_split:
  assumes h: "is_header h" and ps: "\<forall>p \<in> set ps. is_paragraph p"
    and rest: "rest = [] \<or> is_header (hd rest)"
  shows "spec_sections (xs @ h # ps @ rest) = spec_sections xs @ (h, ps) # spec_sections rest"
proof -
  from ps have nh: "\<forall>p \<in> set ps. \<not> is_header p"
    by (auto dest: is_paragraph_not_header)
  have "takeWhile (\<lambda>u. \<not> is_header u) (ps @ rest) = ps"
    using nh rest by (rule takeWhile_paragraphs)
  moreover have "filter is_paragraph ps = ps"
    using ps by simp
  moreover have "spec_sections (ps @ rest) = spec_sections rest"
    using nh by (rule spec_sections_no_header)
  ultimately have "spec_sections (h # ps @ rest) = (h, ps) # spec_sections rest"
    using h by simp
  with h show ?thesis
    by (simp add: spec_sections_append_header)
qed

lemma foldl_put_skip: "section_key s = [] \<Longrightarrow> foldl put d (xs @ s # ys) = foldl put d (xs @ ys)"
  by (simp add: put_empty_key)

lemma foldl_put_no_empty_key: "[] \<notin> fst ` set (foldl put [] secs)"
  by (simp add: foldl_put_keys)

text \<open>
  C2 (as amended). For every markup in which the same non-empty trimmed header text
  occurs more than once (the section \<open>s\<close> is its last occurrence, an earlier one is among
  \<open>xs\<close>), the Section Map contains that text as a key exactly once and its value is the
  content of the last occurrence. In particular, whenever the parser reads the body
  \<^verbatim>\<open><h2>Style</h2><p>Use semicolons.</p><h2>Style</h2><p>Use 2-space indent.</p>\<close>
  as its four tags, the Section Map is \<^verbatim>\<open>{"Style": "Use 2-space indent."}\<close>.
\<close>

theorem repeated_header_last_wins:
  "(parse content = Inr soup
     \<and> find_all recognised_names soup = document pre (xs @ s # ys)
     \<and> sectioned pre (xs @ s # ys)
     \<and> section_key s \<noteq> []
     \<and> section_key s \<in> section_key ` set xs
     \<and> section_key s \<notin> section_key ` set ys
    \<longrightarrow> (\<exists>m. extract_headers_and_content parse content = Inr m
          \<and> count_list (map fst m) (section_key s) = 1
          \<and> map_of m (section_key s) = Some (section_value s)))
   \<and> (parse (PyStr style_body) = Inr style_soup
    \<longrightarrow> extract_headers_and_content parse (PyStr style_body) = Inr [(''Style'', ''Use 2-space indent.'')])"
proof (intro conjI impI)
  assume a: "parse content = Inr soup
     \<and> find_all recognised_names soup = document pre (xs @ s # ys)
     \<and> sectioned pre (xs @ s # ys)
     \<and> section_key s \<noteq> []
     \<and> section_key s \<in> section_key ` set xs
     \<and> section_key s \<notin> section_key ` set ys"
  let ?m = "foldl put [] (xs @ s # ys)"
  from a have "spec_sections (document pre (xs @ s # ys)) = xs @ s # ys"
    by (simp add: spec_sections_document)
  with a have res: "extract_headers_and_content parse content = Inr ?m"
    by (simp add: extract_parsed)
  have dist: "distinct (map fst ?m)"
    by (rule foldl_put_distinct) simp
  from a have "section_key s \<in> fst ` set ?m"
    using foldl_put_keys [of "[]" "xs @ s # ys"] by simp
  then have "section_key s \<in> set (map fst ?m)" by simp
  with dist have once: "count_list (map fst ?m) (section_key s) = 1"
    by (rule count_list_distinct)
  from a have nonempty: "section_key s \<noteq> []" and last: "section_key s \<notin> section_key ` set ys"
    by simp_all
  from nonempty last have "map_of ?m (section_key s) = Some (section_value s)"
    by (rule map_of_foldl_put_last)
  with res once
  show "\<exists>m. extract_headers_and_content parse content = Inr m
          \<and> count_list (map fst m) (section_key s) = 1
          \<and> map_of m (section_key s) = Some (section_value s)"
    by blast
next
  assume "parse (PyStr style_body) = Inr style_soup"
  then have "extract_headers_and_content parse (PyStr style_body)
      = Inr (scan_tags (find_all recognised_names style_soup))"
    by (simp add: extract_headers_and_content_def)
  moreover have "scan_tags (find_all recognised_names style_soup) = [(''Style'', ''Use 2-space indent.'')]"
    by code_simp
  ultimately show "extract_headers_and_content parse (PyStr style_body) = Inr [(''Style'', ''Use 2-space indent.'')]"
    by simp
qed

text \<open>
  The theorem at the scenario's document: both sections have the key \<open>Style\<close>, and the
  value is the second section's.
\<close>

theorem repeated_header_last_wins_witness:
  "parsed_as style_soup (PyStr style_body) = Inr style_soup
   \<and> find_all recognised_names style_soup = document [] ([style_first] @ style_last # [])
   \<and> sectioned [] ([style_first] @ style_last # [])
   \<and> section_key style_last = ''Style''
   \<and> section_key style_first = ''Style''
   \<and> section_value style_last = ''Use 2-space indent.''
   \<and> (\<exists>m. extract_headers_and_content (parsed_as style_soup) (PyStr style_body) = Inr m
          \<and> count_list (map fst m) ''Style'' = 1
          \<and> map_of m ''Style'' = Some ''Use 2-space indent.'')
   \<and> extract_headers_and_content (parsed_as style_soup) (PyStr style_body) = Inr [(''Style'', ''Use 2-space indent.'')]"
proof -
  have p: "parsed_as style_soup (PyStr style_body) = Inr style_soup"
    by (simp add: parsed_as_def)
  have d: "find_all recognised_names style_soup = document [] ([style_first] @ style_last # [])"
    by code_simp
  have wf: "sectioned [] ([style_first] @ style_last # [])"
    by code_simp
  have k2: "section_key style_last = ''Style''"
    by code_simp
  have k1: "section_key style_first = ''Style''"
    by code_simp
  have v2: "section_value style_last = ''Use 2-space indent.''"
    by code_simp
  have hyp: "parsed_as style_soup (PyStr style_body) = Inr style_soup
     \<and> find_all recognised_names style_soup = document [] ([style_first] @ style_last # [])
     \<and> sectioned [] ([style_first] @ style_last # [])
     \<and> section_key style_last \<noteq> []
     \<and> section_key style_last \<in> section_key ` set [style_first]
     \<and> section_key style_last \<notin> section_key ` set []"
    using p d wf k1 k2 by simp
  note inst = repeated_header_last_wins [of "parsed_as style_soup" "PyStr style_body" style_soup
      "[]" "[style_first]" style_last "[]"]
  from inst hyp have
    "\<exists>m. extract_headers_and_content (parsed_as style_soup) (PyStr style_body) = Inr m
          \<and> count_list (map fst m) (section_key style_last) = 1
          \<and> map_of m (section_key style_last) = Some (section_value style_last)"
    by blast
  then have e: "\<exists>m. extract_headers_and_content (parsed_as style_soup) (PyStr style_body) = Inr m
          \<and> count_list (map fst m) ''Style'' = 1
          \<and> map_of m ''Style'' = Some ''Use 2-space indent.''"
    by (simp only: k2 v2)
  from inst p have r: "extract_headers_and_content (parsed_as style_soup) (PyStr style_body)
      = Inr [(''Style'', ''Use 2-space indent.'')]"
    by blast
  from p d wf k2 k1 v2 e r show ?thesis by blast
qed

text \<open>
  C2 as stated fails where the repeated trimmed header text is empty: in
  \<^verbatim>\<open><h2> </h2><p>a</p><h2> </h2><p>b</p>\<close> the trimmed text of both headers is the
  empty string, and the Section Map does not contain it as a key.
\<close>

theorem repeated_header_last_wins_counterexample:
  "strip (get_text \<lparr>name = ''h2'', get_text = '' ''\<rparr>) = []
   \<and> extract_headers_and_content
        (parsed_as [\<lparr>name = ''h2'', get_text = '' ''\<rparr>, \<lparr>name = ''p'', get_text = ''a''\<rparr>,
                    \<lparr>name = ''h2'', get_text = '' ''\<rparr>, \<lparr>name = ''p'', get_text = ''b''\<rparr>])
        (PyStr ''<h2> </h2><p>a</p><h2> </h2><p>b</p>'') = Inr []"
  by code_simp

text \<open>
  C3 (as amended). The extractor has no failing step of its own: on every input for which
  the markup parser returns a document it returns a Section Map without raising, and it
  raises exactly when the parser raises, with the parser's exception. The empty document
  (no tags, as for the empty input) yields the empty map, and so does every document in
  which no recognised header or paragraph tag is found.
\<close>

theorem extractor_raises_only_with_parser:
  "(parse content = Inr soup
      \<longrightarrow> (\<exists>m. extract_headers_and_content parse content = Inr m))
   \<and> (extract_headers_and_content parse content = Inl e \<longleftrightarrow> parse content = Inl e)
   \<and> (parse content = Inr soup \<and> find_all recognised_names soup = []
      \<longrightarrow> extract_headers_and_content parse content = Inr [])
   \<and> (parse content = Inr []
      \<longrightarrow> extract_headers_and_content parse content = Inr [])"
proof (intro conjI impI)
  assume "parse content = Inr soup"
  then show "\<exists>m. extract_headers_and_content parse content = Inr m"
    by (simp add: extract_headers_and_content_def)
next
  show "extract_headers_and_content parse content = Inl e \<longleftrightarrow> parse content = Inl e"
    by (cases "parse content") (simp_all add: extract_headers_and_content_def)
next
  assume "parse content = Inr soup \<and> find_all recognised_names soup = []"
  then show "extract_headers_and_content parse content = Inr []"
    by (simp add: extract_headers_and_content_def scan_tags_spec)
next
  assume "parse content = Inr []"
  then show "extract_headers_and_content parse content = Inr []"
    by (simp add: extract_headers_and_content_def scan_tags_spec find_all_def)
qed

text \<open>
  The theorem at a document with a \<open>div\<close> and a \<open>span\<close> only, at the empty input, and
  at an input that the parser rejects.
\<close>

theorem extractor_raises_only_with_parser_witness:
  "parsed_as bare_soup (PyStr ''<div>x</div><span>y</span>'') = Inr bare_soup
   \<and> find_all recognised_names bare_soup = []
   \<and> extract_headers_and_content (parsed_as bare_soup) (PyStr ''<div>x</div><span>y</span>'') = Inr []
   \<and> parsed_as [] (PyStr '''') = Inr []
   \<and> extract_headers_and_content (parsed_as []) (PyStr '''') = Inr []
   \<and> rejecting (LibraryError ''ParserRejectedMarkup'') (PyStr ''<![foo]>'')
        = Inl (LibraryError ''ParserRejectedMarkup'')
   \<and> extract_headers_and_content (rejecting (LibraryError ''ParserRejectedMarkup'')) (PyStr ''<![foo]>'')
        = Inl (LibraryError ''ParserRejectedMarkup'')"
proof -
  have p: "parsed_as bare_soup (PyStr ''<div>x</div><span>y</span>'') = Inr bare_soup"
    by (simp add: parsed_as_def)
  have f: "find_all recognised_names bare_soup = []"
    by code_simp
  have e: "parsed_as [] (PyStr '''') = Inr []"
    by (simp add: parsed_as_def)
  have r: "rejecting (LibraryError ''ParserRejectedMarkup'') (PyStr ''<![foo]>'')
        = Inl (LibraryError ''ParserRejectedMarkup'')"
    by (simp add: rejecting_def)
  note bare = extractor_raises_only_with_parser
      [of "parsed_as bare_soup" "PyStr ''<div>x</div><span>y</span>''" bare_soup]
  note empty = extractor_raises_only_with_parser [of "parsed_as []" "PyStr ''''" "[]"]
  note rejected = extractor_raises_only_with_parser
      [of "rejecting (LibraryError ''ParserRejectedMarkup'')" "PyStr ''<![foo]>''" _
          "LibraryError ''ParserRejectedMarkup''"]
  from bare p f have b: "extract_headers_and_content (parsed_as bare_soup) (PyStr ''<div>x</div><span>y</span>'') = Inr []"
    by blast
  from empty e have c: "extract_headers_and_content (parsed_as []) (PyStr '''') = Inr []"
    by blast
  from rejected r have d: "extract_headers_and_content (rejecting (LibraryError ''ParserRejectedMarkup'')) (PyStr ''<![foo]>'')
        = Inl (LibraryError ''ParserRejectedMarkup'')"
    by blast
  from p f b e c r d show ?thesis by blast
qed

text \<open>
  C3 as stated fails on an input that the parser rejects: the extractor calls the parser
  outside any handler, so for the string \<^verbatim>\<open><![foo]>\<close> it raises and returns no
  Section Map.
\<close>

theorem extractor_raises_only_with_parser_counterexample:
  "extract_headers_and_content (rejecting (LibraryError ''ParserRejectedMarkup'')) (PyStr ''<![foo]>'')
     = Inl (LibraryError ''ParserRejectedMarkup'')"
  by (simp add: extract_headers_and_content_def rejecting_def)

text \<open>
  C4. Tags before the first header contribute nothing: the result is the result for the
  document without them, they are in no value of the Section Map, and a document
  with paragraphs and no header yields the empty map.
\<close>

theorem leading_paragraphs_dropped:
  "(parse content = Inr (pre @ rest) \<and> (\<forall>t \<in> set pre. \<not> is_header t)
      \<longrightarrow> extract_headers_and_content parse content = Inr (scan_tags (find_all recognised_names rest))
          \<and> (parse content' = Inr rest
               \<longrightarrow> extract_headers_and_content parse content = extract_headers_and_content parse content'))
   \<and> (parse content = Inr soup \<and> (\<forall>t \<in> set soup. \<not> is_header t)
      \<longrightarrow> extract_headers_and_content parse content = Inr [])"
proof (intro conjI impI)
  assume a: "parse content = Inr (pre @ rest) \<and> (\<forall>t \<in> set pre. \<not> is_header t)"
  then have "\<forall>t \<in> set (find_all recognised_names pre). \<not> is_header t"
    by (simp add: find_all_def)
  then have "spec_sections (find_all recognised_names pre @ find_all recognised_names rest)
      = spec_sections (find_all recognised_names rest)"
    by (rule spec_sections_no_header)
  with a show r: "extract_headers_and_content parse content = Inr (scan_tags (find_all recognised_names rest))"
    by (simp add: extract_headers_and_content_def scan_tags_spec find_all_append)
  assume "parse content' = Inr rest"
  with r show "extract_headers_and_content parse content = extract_headers_and_content parse content'"
    by (simp add: extract_headers_and_content_def)
next
  assume a: "parse content = Inr soup \<and> (\<forall>t \<in> set soup. \<not> is_header t)"
  then have "\<forall>t \<in> set (find_all recognised_names soup). \<not> is_header t"
    by (simp add: find_all_def)
  then have "spec_sections (find_all recognised_names soup) = []"
    by (rule spec_sections_no_headers)
  with a show "extract_headers_and_content parse content = Inr []"
    by (simp add: extract_headers_and_content_def scan_tags_spec)
qed

text \<open>
  The theorem at the example document, whose leading paragraph \<open>Preface.\<close> is in no
  value, and at the document that consists of that paragraph alone.
\<close>

theorem leading_paragraphs_dropped_witness:
  "parsed_as (intro_pre @ document [] intro_secs) (PyStr ''doc'') = Inr (intro_pre @ document [] intro_secs)
   \<and> list_all (\<lambda>t. \<not> is_header t) intro_pre
   \<and> extract_headers_and_content (parsed_as (intro_pre @ document [] intro_secs)) (PyStr ''doc'')
        = Inr (scan_tags (find_all recognised_names (document [] intro_secs)))
   \<and> scan_tags (find_all recognised_names (document [] intro_secs)) = [(''Intro'', ''a b''), (''Next'', '''')]
   \<and> parsed_as intro_pre (PyStr ''<p>Preface.</p>'') = Inr intro_pre
   \<and> extract_headers_and_content (parsed_as intro_pre) (PyStr ''<p>Preface.</p>'') = Inr []"
proof -
  have p: "parsed_as (intro_pre @ document [] intro_secs) (PyStr ''doc'') = Inr (intro_pre @ document [] intro_secs)"
    by (simp add: parsed_as_def)
  have n: "list_all (\<lambda>t. \<not> is_header t) intro_pre"
    by code_simp
  then have n': "\<forall>t \<in> set intro_pre. \<not> is_header t"
    by (simp add: list_all_iff)
  have v: "scan_tags (find_all recognised_names (document [] intro_secs)) = [(''Intro'', ''a b''), (''Next'', '''')]"
    by code_simp
  have q: "parsed_as intro_pre (PyStr ''<p>Preface.</p>'') = Inr intro_pre"
    by (simp add: parsed_as_def)
  from leading_paragraphs_dropped [of "parsed_as (intro_pre @ document [] intro_secs)" "PyStr ''doc''"
      intro_pre "document [] intro_secs"] p n'
  have a: "extract_headers_and_content (parsed_as (intro_pre @ document [] intro_secs)) (PyStr ''doc'')
        = Inr (scan_tags (find_all recognised_names (document [] intro_secs)))"
    by blast
  from leading_paragraphs_dropped [of "parsed_as intro_pre" "PyStr ''<p>Preface.</p>''" "[]" "[]" _ intro_pre] q n'
  have b: "extract_headers_and_content (parsed_as intro_pre) (PyStr ''<p>Preface.</p>'') = Inr []"
    by blast
  from p n a v q b show ?thesis by blast
qed

text \<open>
  C5 (as amended). For every markup in which a header with a non-empty trimmed text is
  immediately followed by another header or by the end of the document, and no later
  header has the same trimmed text, the Section Map maps that header's trimmed text to
  the empty string.
\<close>

theorem header_without_paragraphs:
  "parse content = Inr soup
   \<and> find_all recognised_names soup = xs @ h # rest
   \<and> is_header h
   \<and> (rest = [] \<or> is_header (hd rest))
   \<and> spec_key h \<noteq> []
   \<and> (\<forall>t \<in> set rest. is_header t \<longrightarrow> spec_key t \<noteq> spec_key h)
   \<longrightarrow> (\<exists>m. extract_headers_and_content parse content = Inr m \<and> map_of m (spec_key h) = Some [])"
proof
  assume a: "parse content = Inr soup
   \<and> find_all recognised_names soup = xs @ h # rest
   \<and> is_header h
   \<and> (rest = [] \<or> is_header (hd rest))
   \<and> spec_key h \<noteq> []
   \<and> (\<forall>t \<in> set rest. is_header t \<longrightarrow> spec_key t \<noteq> spec_key h)"
  let ?s = "(h, [] :: tag list)"
  from a have h: "is_header h" and rest: "rest = [] \<or> is_header (hd rest)" by simp_all
  have "spec_sections (xs @ h # [] @ rest) = spec_sections xs @ ?s # spec_sections rest"
    using h _ rest by (rule spec_sections_split) simp
  then have secs: "spec_sections (xs @ h # rest) = spec_sections xs @ ?s # spec_sections rest"
    by simp
  from a have nonempty: "section_key ?s \<noteq> []"
    by (simp add: section_key_def)
  from a have "spec_key h \<notin> spec_key ` {t \<in> set rest. is_header t}"
    by auto
  moreover have "section_key ?s = spec_key h"
    by (simp add: section_key_def)
  ultimately have last: "section_key ?s \<notin> section_key ` set (spec_sections rest)"
    using spec_sections_keys [of rest] by simp
  from nonempty last
  have "map_of (foldl put [] (spec_sections xs @ ?s # spec_sections rest)) (section_key ?s)
      = Some (section_value ?s)"
    by (rule map_of_foldl_put_last)
  then have "map_of (foldl put [] (spec_sections (xs @ h # rest))) (spec_key h) = Some []"
    by (simp only: secs) (simp add: section_key_def section_value_def spec_value_empty)
  with a show "\<exists>m. extract_headers_and_content parse content = Inr m \<and> map_of m (spec_key h) = Some []"
    by (simp add: extract_parsed)
qed

text \<open>
  The theorem at a document whose header \<open>Title\<close> is directly followed by the header
  \<open>Rules\<close>.
\<close>

theorem header_without_paragraphs_witness:
  "parsed_as gap_soup (PyStr ''doc'') = Inr gap_soup
   \<and> find_all recognised_names gap_soup = [] @ gap_soup ! 0 # tl gap_soup
   \<and> is_header (gap_soup ! 0)
   \<and> is_header (hd (tl gap_soup))
   \<and> spec_key (gap_soup ! 0) = ''Title''
   \<and> list_all (\<lambda>t. spec_key t \<noteq> ''Title'') (tl gap_soup)
   \<and> (\<exists>m. extract_headers_and_content (parsed_as gap_soup) (PyStr ''doc'') = Inr m
          \<and> map_of m ''Title'' = Some [])
   \<and> extract_headers_and_content (parsed_as gap_soup) (PyStr ''doc'')
        = Inr [(''Title'', ''''), (''Rules'', ''Be kind.''), (''End'', '''')]"
proof -
  have p: "parsed_as gap_soup (PyStr ''doc'') = Inr gap_soup"
    by (simp add: parsed_as_def)
  have f: "find_all recognised_names gap_soup = [] @ gap_soup ! 0 # tl gap_soup"
    by code_simp
  have h: "is_header (gap_soup ! 0)"
    by code_simp
  have n: "is_header (hd (tl gap_soup))"
    by code_simp
  have k: "spec_key (gap_soup ! 0) = ''Title''"
    by code_simp
  have o: "list_all (\<lambda>t. spec_key t \<noteq> ''Title'') (tl gap_soup)"
    by code_simp
  have v: "extract_headers_and_content (parsed_as gap_soup) (PyStr ''doc'')
        = Inr [(''Title'', ''''), (''Rules'', ''Be kind.''), (''End'', '''')]"
    by code_simp
  from o k have o': "\<forall>t \<in> set (tl gap_soup). is_header t \<longrightarrow> spec_key t \<noteq> spec_key (gap_soup ! 0)"
    by (simp add: list_all_iff)
  from k have k': "spec_key (gap_soup ! 0) \<noteq> []" by simp
  from header_without_paragraphs [of "parsed_as gap_soup" "PyStr ''doc''" gap_soup "[]" "gap_soup ! 0" "tl gap_soup"]
    p f h n k' o'
  have "\<exists>m. extract_headers_and_content (parsed_as gap_soup) (PyStr ''doc'') = Inr m
          \<and> map_of m (spec_key (gap_soup ! 0)) = Some []"
    by blast
  then have e: "\<exists>m. extract_headers_and_content (parsed_as gap_soup) (PyStr ''doc'') = Inr m
          \<and> map_of m ''Title'' = Some []"
    by (simp only: k)
  from p f h n k o e v show ?thesis by blast
qed

text \<open>
  C5 as stated fails in \<^verbatim>\<open><h1> </h1><h2>A</h2><h2>A</h2><p>x</p>\<close>: the first
  header is immediately followed by a header and its trimmed text, the empty string, is
  not a key; the second header is immediately followed by a header and its trimmed text
  \<open>A\<close> is mapped to \<open>x\<close>, the content of the later header of the same text.
\<close>

theorem header_without_paragraphs_counterexample:
  "extract_headers_and_content
     (parsed_as [\<lparr>name = ''h1'', get_text = '' ''\<rparr>, \<lparr>name = ''h2'', get_text = ''A''\<rparr>,
                 \<lparr>name = ''h2'', get_text = ''A''\<rparr>, \<lparr>name = ''p'', get_text = ''x''\<rparr>])
     (PyStr ''<h1> </h1><h2>A</h2><h2>A</h2><p>x</p>'') = Inr [(''A'', ''x'')]"
  by code_simp

text \<open>
  C9. A header whose trimmed text is empty commits the preceding section and leaves a
  current header that counts as unset; while the current header is unset a paragraph
  changes nothing; the empty string is never a key of the Section Map; and the result is
  the one for the document without that header and without the paragraphs between it and
  the next header.
\<close>

theorem empty_header_dropped:
  "(is_header h \<and> spec_key h = []
      \<longrightarrow> content_dict (loop_body st h) = commit st
          \<and> \<not> truthy (current_header (loop_body st h))
          \<and> current_content (loop_body st h) = [])
   \<and> (is_paragraph p \<and> \<not> truthy (current_header st) \<longrightarrow> loop_body st p = st)
   \<and> (parse content = Inr soup
      \<longrightarrow> (\<exists>m. extract_headers_and_content parse content = Inr m \<and> [] \<notin> fst ` set m))
   \<and> (parse content = Inr soup
       \<and> find_all recognised_names soup = xs @ h # ps @ rest
       \<and> is_header h \<and> spec_key h = []
       \<and> (\<forall>p \<in> set ps. is_paragraph p)
       \<and> (rest = [] \<or> is_header (hd rest))
      \<longrightarrow> extract_headers_and_content parse content = Inr (scan_tags (xs @ rest)))"
proof (intro conjI impI)
  assume a: "is_header h \<and> spec_key h = []"
  then show "content_dict (loop_body st h) = commit st"
    by (simp add: loop_body_def is_header_def)
  from a show "\<not> truthy (current_header (loop_body st h))"
    by (simp add: loop_body_def is_header_def spec_key_def truthy_def)
  from a show "current_content (loop_body st h) = []"
    by (simp add: loop_body_def is_header_def)
next
  assume "is_paragraph p \<and> \<not> truthy (current_header st)"
  then show "loop_body st p = st"
    using is_paragraph_not_header [of p] by (simp add: loop_body_def is_header_def)
next
  assume "parse content = Inr soup"
  then show "\<exists>m. extract_headers_and_content parse content = Inr m \<and> [] \<notin> fst ` set m"
    by (simp add: extract_parsed foldl_put_no_empty_key)
next
  assume a: "parse content = Inr soup
       \<and> find_all recognised_names soup = xs @ h # ps @ rest
       \<and> is_header h \<and> spec_key h = []
       \<and> (\<forall>p \<in> set ps. is_paragraph p)
       \<and> (rest = [] \<or> is_header (hd rest))"
  then have h: "is_header h" and ps: "\<forall>p \<in> set ps. is_paragraph p"
    and rest: "rest = [] \<or> is_header (hd rest)" and key: "section_key (h, ps) = []"
    by (simp_all add: section_key_def)
  from h ps rest
  have "spec_sections (xs @ h # ps @ rest) = spec_sections xs @ (h, ps) # spec_sections rest"
    by (rule spec_sections_split)
  moreover from key
  have "foldl put [] (spec_sections xs @ (h, ps) # spec_sections rest)
      = foldl put [] (spec_sections xs @ spec_sections rest)"
    by (rule foldl_put_skip)
  moreover from rest have "spec_sections (xs @ rest) = spec_sections xs @ spec_sections rest"
    by (rule spec_sections_append)
  ultimately have "foldl put [] (spec_sections (xs @ h # ps @ rest)) = scan_tags (xs @ rest)"
    by (simp only: scan_tags_spec)
  with a show "extract_headers_and_content parse content = Inr (scan_tags (xs @ rest))"
    by (simp add: extract_parsed)
qed

text \<open>
  The theorem at a document whose second header is blank: the paragraph \<open>lost\<close> that
  follows it is in no value.
\<close>

theorem empty_header_dropped_witness:
  "is_header (blank_soup ! 2) \<and> spec_key (blank_soup ! 2) = []
   \<and> content_dict (loop_body \<lparr>content_dict = [], current_header = Some ''Intro'', current_content = [''a'']\<rparr> (blank_soup ! 2))
        = [(''Intro'', ''a'')]
   \<and> is_paragraph (blank_soup ! 3)
   \<and> loop_body \<lparr>content_dict = [(''Intro'', ''a'')], current_header = Some [], current_content = []\<rparr> (blank_soup ! 3)
        = \<lparr>content_dict = [(''Intro'', ''a'')], current_header = Some [], current_content = []\<rparr>
   \<and> parsed_as blank_soup (PyStr ''doc'') = Inr blank_soup
   \<and> find_all recognised_names blank_soup = take 2 blank_soup @ blank_soup ! 2 # [blank_soup ! 3] @ drop 4 blank_soup
   \<and> is_header (hd (drop 4 blank_soup))
   \<and> extract_headers_and_content (parsed_as blank_soup) (PyStr ''doc'') = Inr (scan_tags (take 2 blank_soup @ drop 4 blank_soup))
   \<and> extract_headers_and_content (parsed_as blank_soup) (PyStr ''doc'') = Inr [(''Intro'', ''a''), (''Next'', ''b'')]"
proof -
  let ?st = "\<lparr>content_dict = [], current_header = Some ''Intro'', current_content = [''a'']\<rparr>"
  let ?st' = "\<lparr>content_dict = [(''Intro'', ''a'')], current_header = Some [], current_content = []\<rparr>"
  note inst = empty_header_dropped [of "blank_soup ! 2" ?st "blank_soup ! 3"
      "parsed_as blank_soup" "PyStr ''doc''" blank_soup "take 2 blank_soup" "[blank_soup ! 3]" "drop 4 blank_soup"]
  note inst' = empty_header_dropped [of "blank_soup ! 2" ?st' "blank_soup ! 3"]
  have h: "is_header (blank_soup ! 2)" by code_simp
  have k: "spec_key (blank_soup ! 2) = []" by code_simp
  have c: "commit ?st = [(''Intro'', ''a'')]" by code_simp
  have ip: "is_paragraph (blank_soup ! 3)" by code_simp
  have nt: "\<not> truthy (current_header ?st')" by (simp add: truthy_def)
  have p: "parsed_as blank_soup (PyStr ''doc'') = Inr blank_soup" by (simp add: parsed_as_def)
  have f: "find_all recognised_names blank_soup = take 2 blank_soup @ blank_soup ! 2 # [blank_soup ! 3] @ drop 4 blank_soup"
    by code_simp
  have n: "is_header (hd (drop 4 blank_soup))" by code_simp
  have v: "extract_headers_and_content (parsed_as blank_soup) (PyStr ''doc'') = Inr [(''Intro'', ''a''), (''Next'', ''b'')]"
    by code_simp
  from inst h k c have a: "content_dict (loop_body ?st (blank_soup ! 2)) = [(''Intro'', ''a'')]"
    by simp
  from inst' ip nt have b: "loop_body ?st' (blank_soup ! 3) = ?st'"
    by blast
  from ip have ps: "\<forall>p \<in> set [blank_soup ! 3]. is_paragraph p" by simp
  from inst p f h k ps n
  have d: "extract_headers_and_content (parsed_as blank_soup) (PyStr ''doc'') = Inr (scan_tags (take 2 blank_soup @ drop 4 blank_soup))"
    by blast
  from h k a ip b p f n d v show ?thesis by blast
qed

section \<open>The Document Fetcher and the request flow\<close>

lemma bind_exn_Inl: "bind_exn (Inl e) f = Inl e"
  by (simp add: bind_exn_def)

lemma bind_exn_Inr: "bind_exn (Inr x) f = f x"
  by (simp add: bind_exn_def)

lemma dict_get_dict: "dict_get (PyDict items) k dflt = Inr (case map_of items k of None \<Rightarrow> dflt | Some v \<Rightarrow> v)"
  by (simp add: dict_get_def)

lemma unpack_list_length: "length xs \<noteq> 2 \<Longrightarrow> unpack_list xs = Inl ValueError"
  by (auto simp: unpack_list_def split: list.splits)

lemma unpack2_str: "length s \<noteq> 2 \<Longrightarrow> unpack2 (PyStr s) = Inl ValueError"
  by (simp add: unpack2_def unpack_list_length)

lemma fetch_get_failure:
  "http_get page_id confluence_url email api_token = Inl e \<Longrightarrow>
   get_confluence_page_content http_get page_id confluence_url email api_token = Inl e"
  by (simp add: get_confluence_page_content_def bind_exn_Inl)

lemma fetch_not_ok:
  "http_get page_id confluence_url email api_token = Inr response \<Longrightarrow> status_code response \<noteq> 200 \<Longrightarrow>
   get_confluence_page_content http_get page_id confluence_url email api_token
     = Inr (PyStr (''Error: '' @ str_int (status_code response) @ '' - '' @ response_text response))"
  by (simp add: get_confluence_page_content_def bind_exn_Inr)

lemma unpack2_pair: "unpack2 (PyTuple [a, b]) = Inr (a, b)"
  by (simp add: unpack2_def unpack_list_def)

lemma unpack2_error_string: "unpack2 (PyStr (''Error: '' @ c @ '' - '' @ t)) = Inl ValueError"
  by (rule unpack2_str) simp

lemma handle_storage_failure:
  "retrieve_code_file_from_s3 env file_key = Inl e \<Longrightarrow>
   handle_code_review_request env page_id file_key template = Inl e"
  by (simp add: handle_code_review_request_def bind_exn_Inl)

lemma handle_fetch_failure:
  "retrieve_code_file_from_s3 env file_key = Inr code_file \<Longrightarrow>
   get_confluence_page_content (requests_get env) page_id (CONFLUENCE_URL env) (EMAIL env)
     (CONFLUENCE_API_TOKEN env) = Inl e \<Longrightarrow>
   handle_code_review_request env page_id file_key template = Inl e"
  by (simp add: handle_code_review_request_def bind_exn_Inl bind_exn_Inr)

lemma handle_unpack_failure:
  "retrieve_code_file_from_s3 env file_key = Inr code_file \<Longrightarrow>
   get_confluence_page_content (requests_get env) page_id (CONFLUENCE_URL env) (EMAIL env)
     (CONFLUENCE_API_TOKEN env) = Inr fetched \<Longrightarrow>
   unpack2 fetched = Inl e \<Longrightarrow>
   handle_code_review_request env page_id file_key template = Inl e"
  by (simp add: handle_code_review_request_def bind_exn_Inl bind_exn_Inr)

lemma handle_fetched_pair:
  "retrieve_code_file_from_s3 env file_key = Inr code_file \<Longrightarrow>
   get_confluence_page_content (requests_get env) page_id (CONFLUENCE_URL env) (EMAIL env)
     (CONFLUENCE_API_TOKEN env) = Inr (PyTuple [title, content]) \<Longrightarrow>
   handle_code_review_request env page_id file_key template =
     bind_exn (extract_headers_and_content (BeautifulSoup env) content) (\<lambda>tech_choice_doc.
     bind_exn (substitute template
                 [(''output_format'', output_format),
                  (''tech_choice_doc'', py_str_dict env tech_choice_doc)]) (\<lambda>system_prompt.
     bind_exn (bind_exn (getitem_str (MODEL_IDS env) ''nova-micro'') (\<lambda>m. getitem_str m ''id'')) (\<lambda>model_id.
       generate_output env model_id (format_prompt system_prompt) (format_message ''user'' code_file))))"
  by (simp add: handle_code_review_request_def bind_exn_Inr unpack2_pair)

lemma extract_failure:
  "parse content = Inl e \<Longrightarrow> extract_headers_and_content parse content = Inl e"
  by (simp add: extract_headers_and_content_def)

lemma generate_output_converse_failure:
  "converse env model_id messages system_prompt inference_config = Inl e \<Longrightarrow>
   generate_output env model_id system_prompt messages = Inl e"
  by (simp add: generate_output_def invoke_bedrock_def bind_exn_Inl)

lemma request_flow_body:
  "dict_get body ''page_id'' PyNone = Inr page_id \<Longrightarrow>
   dict_get body ''file_key'' PyNone = Inr file_key \<Longrightarrow>
   request_flow env (Inr body) template = handle_code_review_request env page_id file_key template"
  by (simp add: request_flow_def bind_exn_Inr)

text \<open>
  What \<^verbatim>\<open>generate_output\<close> returns is read from the reply of \<^verbatim>\<open>converse\<close>: the
  text of the first part of the reply's message, once the four usage figures have been
  converted.
\<close>

lemma generate_output_reply:
  "converse env model_id messages system_prompt inference_config = Inr reply \<Longrightarrow>
   getitem_str reply ''usage'' = Inr usage \<Longrightarrow>
   getitem_str usage ''inputTokens'' = Inr n_in \<Longrightarrow> py_float env n_in = Inr input_tokens \<Longrightarrow>
   getitem_str usage ''outputTokens'' = Inr n_out \<Longrightarrow> py_float env n_out = Inr output_tokens \<Longrightarrow>
   getitem_str usage ''totalTokens'' = Inr n_total \<Longrightarrow> py_float env n_total = Inr total_tokens \<Longrightarrow>
   getitem_str reply ''metrics'' = Inr metrics \<Longrightarrow>
   getitem_str metrics ''latencyMs'' = Inr n_ms \<Longrightarrow> py_float env n_ms = Inr latency \<Longrightarrow>
   getitem_str reply ''output'' = Inr reply_output \<Longrightarrow>
   getitem_str reply_output ''message'' = Inr message \<Longrightarrow>
   getitem_str message ''content'' = Inr parts \<Longrightarrow>
   getitem_first parts = Inr first \<Longrightarrow>
   getitem_str first ''text'' = Inr model_text \<Longrightarrow>
   generate_output env model_id system_prompt messages = Inr model_text"
  by (simp add: generate_output_def invoke_bedrock_def bind_exn_Inr)

lemma substitute_both:
  "substitute [Literal a, Placeholder ''output_format'', Literal b, Placeholder ''tech_choice_doc'', Literal c]
     [(''output_format'', x), (''tech_choice_doc'', y)] = Inr (a @ x @ b @ y @ c)"
  by (simp add: bind_exn_Inr)

lemma substitute_backend:
  "\<exists>p. substitute agent_backend_system_prompt_template
         [(''output_format'', x), (''tech_choice_doc'', y)] = Inr p"
  unfolding agent_backend_system_prompt_template_def substitute_both by blast

lemma substitute_frontend:
  "\<exists>p. substitute agent_frontend_system_prompt_template
         [(''output_format'', x), (''tech_choice_doc'', y)] = Inr p"
  unfolding agent_frontend_system_prompt_template_def substitute_both by blast

section \<open>The claims about the Document Fetcher and the endpoints\<close>

text \<open>
  C6. For every response of the wiki whose status code is not 200, the Document Fetcher
  returns the string \<^verbatim>\<open>Error: <status code> - <response body>\<close> and does not raise,
  whatever the status code.
\<close>

theorem fetch_failure_string:
  "http_get page_id confluence_url email api_token = Inr response \<and> status_code response \<noteq> 200
   \<longrightarrow> get_confluence_page_content http_get page_id confluence_url email api_token
        = Inr (PyStr (''Error: '' @ str_int (status_code response) @ '' - '' @ response_text response))"
  by (simp add: get_confluence_page_content_def bind_exn_Inr)

text \<open>
  The theorem at a response with status 404 and body \<open>Not Found\<close>.
\<close>

theorem fetch_failure_string_witness:
  "responding not_found_response (PyStr ''42'') (PyStr ''https://wiki'') (PyStr ''me'') (PyStr ''token'') = Inr not_found_response
   \<and> status_code not_found_response = 404
   \<and> str_int 404 = ''404''
   \<and> response_text not_found_response = ''Not Found''
   \<and> get_confluence_page_content (responding not_found_response) (PyStr ''42'') (PyStr ''https://wiki'') (PyStr ''me'') (PyStr ''token'')
        = Inr (PyStr ''Error: 404 - Not Found'')"
proof -
  have g: "responding not_found_response (PyStr ''42'') (PyStr ''https://wiki'') (PyStr ''me'') (PyStr ''token'') = Inr not_found_response"
    by (simp add: responding_def)
  have s: "status_code not_found_response = 404"
    by (simp add: not_found_response_def)
  have d: "str_int 404 = ''404''"
    by code_simp
  have t: "response_text not_found_response = ''Not Found''"
    by (simp add: not_found_response_def)
  from s have ne: "status_code not_found_response \<noteq> 200" by simp
  from fetch_failure_string [of "responding not_found_response" "PyStr ''42''" "PyStr ''https://wiki''"
      "PyStr ''me''" "PyStr ''token''" not_found_response] g ne
  have "get_confluence_page_content (responding not_found_response) (PyStr ''42'') (PyStr ''https://wiki'') (PyStr ''me'') (PyStr ''token'')
        = Inr (PyStr (''Error: '' @ str_int (status_code not_found_response) @ '' - '' @ response_text not_found_response))"
    by blast
  then have "get_confluence_page_content (responding not_found_response) (PyStr ''42'') (PyStr ''https://wiki'') (PyStr ''me'') (PyStr ''token'')
        = Inr (PyStr ''Error: 404 - Not Found'')"
    by (simp add: s d t)
  with g s d t show ?thesis by blast
qed

text \<open>
  C7 (as amended). For every response with status 200 whose JSON is an object, in which
  \<open>body\<close> and \<open>body.storage\<close> are objects where they are present, the Document Fetcher
  returns the pair of the title (\<^verbatim>\<open>None\<close> when the object has none) and the content at
  \<open>body.storage.value\<close>; when a part of that path is absent, the content is the literal
  \<^verbatim>\<open>No content found.\<close>
\<close>

theorem fetch_success_pair:
  "http_get page_id confluence_url email api_token = Inr response
   \<and> status_code response = 200
   \<and> json response = Inr (PyDict data)
   \<and> title = (case map_of data ''title'' of None \<Rightarrow> PyNone | Some t \<Rightarrow> t)
   \<longrightarrow> (map_of data ''body'' = None
        \<longrightarrow> get_confluence_page_content http_get page_id confluence_url email api_token
             = Inr (PyTuple [title, PyStr ''No content found.'']))
     \<and> (map_of data ''body'' = Some (PyDict body) \<and> map_of body ''storage'' = None
        \<longrightarrow> get_confluence_page_content http_get page_id confluence_url email api_token
             = Inr (PyTuple [title, PyStr ''No content found.'']))
     \<and> (map_of data ''body'' = Some (PyDict body) \<and> map_of body ''storage'' = Some (PyDict storage)
          \<and> map_of storage ''value'' = None
        \<longrightarrow> get_confluence_page_content http_get page_id confluence_url email api_token
             = Inr (PyTuple [title, PyStr ''No content found.'']))
     \<and> (map_of data ''body'' = Some (PyDict body) \<and> map_of body ''storage'' = Some (PyDict storage)
          \<and> map_of storage ''value'' = Some page_content
        \<longrightarrow> get_confluence_page_content http_get page_id confluence_url email api_token
             = Inr (PyTuple [title, page_content]))"
  by (simp add: get_confluence_page_content_def bind_exn_Inr dict_get_dict)

text \<open>
  The theorem at the scenario's page, whose path is complete, and at the empty JSON
  object, where \<open>body\<close> is absent.
\<close>

theorem fetch_success_pair_witness:
  "responding style_response (PyStr ''42'') (PyStr ''https://wiki'') (PyStr ''me'') (PyStr ''token'') = Inr style_response
   \<and> status_code style_response = 200
   \<and> get_confluence_page_content (responding style_response) (PyStr ''42'') (PyStr ''https://wiki'') (PyStr ''me'') (PyStr ''token'')
        = Inr (PyTuple [PyStr ''Standards'', PyStr style_body])
   \<and> responding bare_response (PyStr ''42'') (PyStr ''https://wiki'') (PyStr ''me'') (PyStr ''token'') = Inr bare_response
   \<and> status_code bare_response = 200
   \<and> json bare_response = Inr (PyDict [])
   \<and> get_confluence_page_content (responding bare_response) (PyStr ''42'') (PyStr ''https://wiki'') (PyStr ''me'') (PyStr ''token'')
        = Inr (PyTuple [PyNone, PyStr ''No content found.''])"
proof -
  let ?data = "[(''id'', PyStr ''3539730433''), (''title'', PyStr ''Standards''),
                (''body'', PyDict [(''storage'', PyDict [(''value'', PyStr style_body)])])]"
  have g: "responding style_response (PyStr ''42'') (PyStr ''https://wiki'') (PyStr ''me'') (PyStr ''token'') = Inr style_response"
    by (simp add: responding_def)
  have s: "status_code style_response = 200"
    by (simp add: style_response_def)
  have j: "json style_response = Inr (PyDict ?data)"
    by (simp add: style_response_def)
  have t: "PyStr ''Standards'' = (case map_of ?data ''title'' of None \<Rightarrow> PyNone | Some t \<Rightarrow> t)"
    by simp
  have b: "map_of ?data ''body'' = Some (PyDict [(''storage'', PyDict [(''value'', PyStr style_body)])])"
    by simp
  have st: "map_of [(''storage'', PyDict [(''value'', PyStr style_body)])] ''storage'' = Some (PyDict [(''value'', PyStr style_body)])"
    by simp
  have v: "map_of [(''value'', PyStr style_body)] ''value'' = Some (PyStr style_body)"
    by simp
  from fetch_success_pair [of "responding style_response" "PyStr ''42''" "PyStr ''https://wiki''"
      "PyStr ''me''" "PyStr ''token''" style_response ?data "PyStr ''Standards''"
      "[(''storage'', PyDict [(''value'', PyStr style_body)])]" "[(''value'', PyStr style_body)]" "PyStr style_body"]
    g s j t b st v
  have full: "get_confluence_page_content (responding style_response) (PyStr ''42'') (PyStr ''https://wiki'') (PyStr ''me'') (PyStr ''token'')
        = Inr (PyTuple [PyStr ''Standards'', PyStr style_body])"
    by blast
  have g': "responding bare_response (PyStr ''42'') (PyStr ''https://wiki'') (PyStr ''me'') (PyStr ''token'') = Inr bare_response"
    by (simp add: responding_def)
  have s': "status_code bare_response = 200"
    by (simp add: bare_response_def)
  have j': "json bare_response = Inr (PyDict [])"
    by (simp add: bare_response_def)
  have t': "PyNone = (case map_of ([] :: (string \<times> pyval) list) ''title'' of None \<Rightarrow> PyNone | Some t \<Rightarrow> t)"
    by simp
  have b': "map_of ([] :: (string \<times> pyval) list) ''body'' = None"
    by simp
  from fetch_success_pair [of "responding bare_response" "PyStr ''42''" "PyStr ''https://wiki''"
      "PyStr ''me''" "PyStr ''token''" bare_response "[]" PyNone]
    g' s' j' t' b'
  have bare: "get_confluence_page_content (responding bare_response) (PyStr ''42'') (PyStr ''https://wiki'') (PyStr ''me'') (PyStr ''token'')
        = Inr (PyTuple [PyNone, PyStr ''No content found.''])"
    by blast
  from g s full g' s' j' bare show ?thesis by blast
qed

text \<open>
  C7 as stated fails in two ways. It names the fallback literal \<^verbatim>\<open>no content found\<close>,
  and for a response with status 200 and the empty JSON object the content returned is
  \<^verbatim>\<open>No content found.\<close>, a different string. And it promises the pair for every
  response with status 200, yet the fetcher raises when \<open>body\<close> or \<open>body.storage\<close> is
  \<^verbatim>\<open>null\<close>, when the JSON is a list, and when the body is not JSON.
\<close>

theorem fetch_success_pair_counterexample:
  "get_confluence_page_content (responding bare_response) (PyStr ''42'') (PyStr ''https://wiki'') (PyStr ''me'') (PyStr ''token'')
        = Inr (PyTuple [PyNone, PyStr ''No content found.''])
   \<and> ''No content found.'' \<noteq> ''no content found''
   \<and> get_confluence_page_content (responding null_body_response) (PyStr ''42'') (PyStr ''https://wiki'') (PyStr ''me'') (PyStr ''token'')
        = Inl AttributeError
   \<and> get_confluence_page_content (responding null_storage_response) (PyStr ''42'') (PyStr ''https://wiki'') (PyStr ''me'') (PyStr ''token'')
        = Inl AttributeError
   \<and> get_confluence_page_content (responding list_response) (PyStr ''42'') (PyStr ''https://wiki'') (PyStr ''me'') (PyStr ''token'')
        = Inl AttributeError
   \<and> get_confluence_page_content (responding garbled_response) (PyStr ''42'') (PyStr ''https://wiki'') (PyStr ''me'') (PyStr ''token'')
        = Inl (LibraryError ''JSONDecodeError'')"
  by code_simp

text \<open>
  C8. Each endpoint answers a raised exception of the request flow, whatever it is, with
  \<^verbatim>\<open>HTTPException(500, "Something went wrong")\<close>, and a returned value with that value
  and status 200. The request flow raises what its steps raise: parsing the body, reading
  the two fields, the storage fetch, the wiki fetch, the extraction, the prompt assembly,
  the model invocation and the reading of its reply. When all succeed, the value returned
  is the model's text: the \<^verbatim>\<open>text\<close> of the first part of the message in the reply that
  \<^verbatim>\<open>converse\<close> gave for this code file and this prompt.
\<close>

theorem endpoints_failure_policy:
  "(request_flow env req_json agent_backend_system_prompt_template = Inl e
      \<longrightarrow> backend_agent env req_json = HTTPException 500 ''Something went wrong''
          \<and> http_status (backend_agent env req_json) = 500)
   \<and> (request_flow env req_json agent_frontend_system_prompt_template = Inl e
      \<longrightarrow> frontend_agent env req_json = HTTPException 500 ''Something went wrong''
          \<and> http_status (frontend_agent env req_json) = 500)
   \<and> (request_flow env req_json agent_backend_system_prompt_template = Inr model_text
      \<longrightarrow> backend_agent env req_json = Return model_text
          \<and> http_status (backend_agent env req_json) = 200)
   \<and> (request_flow env req_json agent_frontend_system_prompt_template = Inr model_text
      \<longrightarrow> frontend_agent env req_json = Return model_text
          \<and> http_status (frontend_agent env req_json) = 200)
   \<and> (req_json = Inl e \<longrightarrow> request_flow env req_json template = Inl e)
   \<and> (req_json = Inr body \<and> (dict_get body ''page_id'' PyNone = Inl e \<or> dict_get body ''file_key'' PyNone = Inl e)
      \<longrightarrow> request_flow env req_json template = Inl e)
   \<and> (req_json = Inr body \<and> dict_get body ''page_id'' PyNone = Inr page_id
        \<and> dict_get body ''file_key'' PyNone = Inr file_key
      \<longrightarrow> request_flow env req_json template = handle_code_review_request env page_id file_key template)
   \<and> (retrieve_code_file_from_s3 env file_key = Inl e
      \<longrightarrow> handle_code_review_request env page_id file_key template = Inl e)
   \<and> (retrieve_code_file_from_s3 env file_key = Inr code_file
        \<and> requests_get env page_id (CONFLUENCE_URL env) (EMAIL env) (CONFLUENCE_API_TOKEN env) = Inl e
      \<longrightarrow> handle_code_review_request env page_id file_key template = Inl e)
   \<and> (retrieve_code_file_from_s3 env file_key = Inr code_file
        \<and> get_confluence_page_content (requests_get env) page_id (CONFLUENCE_URL env) (EMAIL env)
             (CONFLUENCE_API_TOKEN env) = Inr (PyTuple [title, content])
        \<and> BeautifulSoup env content = Inl e
      \<longrightarrow> handle_code_review_request env page_id file_key template = Inl e)
   \<and> (retrieve_code_file_from_s3 env file_key = Inr code_file
        \<and> get_confluence_page_content (requests_get env) page_id (CONFLUENCE_URL env) (EMAIL env)
             (CONFLUENCE_API_TOKEN env) = Inr (PyTuple [title, content])
        \<and> extract_headers_and_content (BeautifulSoup env) content = Inr tech_choice_doc
        \<and> substitute template [(''output_format'', output_format),
                                 (''tech_choice_doc'', py_str_dict env tech_choice_doc)] = Inl e
      \<longrightarrow> handle_code_review_request env page_id file_key template = Inl e)
   \<and> (retrieve_code_file_from_s3 env file_key = Inr code_file
        \<and> get_confluence_page_content (requests_get env) page_id (CONFLUENCE_URL env) (EMAIL env)
             (CONFLUENCE_API_TOKEN env) = Inr (PyTuple [title, content])
        \<and> extract_headers_and_content (BeautifulSoup env) content = Inr tech_choice_doc
        \<and> substitute template [(''output_format'', output_format),
                                 (''tech_choice_doc'', py_str_dict env tech_choice_doc)] = Inr system_prompt
        \<and> bind_exn (getitem_str (MODEL_IDS env) ''nova-micro'') (\<lambda>m. getitem_str m ''id'') = Inr model_id
        \<and> converse env model_id (format_message ''user'' code_file) (format_prompt system_prompt)
             inference_config = Inl e
      \<longrightarrow> handle_code_review_request env page_id file_key template = Inl e)
   \<and> (retrieve_code_file_from_s3 env file_key = Inr code_file
        \<and> get_confluence_page_content (requests_get env) page_id (CONFLUENCE_URL env) (EMAIL env)
             (CONFLUENCE_API_TOKEN env) = Inr (PyTuple [title, content])
        \<and> extract_headers_and_content (BeautifulSoup env) content = Inr tech_choice_doc
        \<and> substitute template [(''output_format'', output_format),
                                 (''tech_choice_doc'', py_str_dict env tech_choice_doc)] = Inr system_prompt
        \<and> bind_exn (getitem_str (MODEL_IDS env) ''nova-micro'') (\<lambda>m. getitem_str m ''id'') = Inr model_id
        \<and> generate_output env model_id (format_prompt system_prompt) (format_message ''user'' code_file)
             = Inl e
      \<longrightarrow> handle_code_review_request env page_id file_key template = Inl e)
   \<and> (req_json = Inr body \<and> dict_get body ''page_id'' PyNone = Inr page_id
        \<and> dict_get body ''file_key'' PyNone = Inr file_key
        \<and> retrieve_code_file_from_s3 env file_key = Inr code_file
        \<and> get_confluence_page_content (requests_get env) page_id (CONFLUENCE_URL env) (EMAIL env)
             (CONFLUENCE_API_TOKEN env) = Inr (PyTuple [title, content])
        \<and> extract_headers_and_content (BeautifulSoup env) content = Inr tech_choice_doc
        \<and> substitute template [(''output_format'', output_format),
                                 (''tech_choice_doc'', py_str_dict env tech_choice_doc)] = Inr system_prompt
        \<and> bind_exn (getitem_str (MODEL_IDS env) ''nova-micro'') (\<lambda>m. getitem_str m ''id'') = Inr model_id
        \<and> converse env model_id (format_message ''user'' code_file) (format_prompt system_prompt)
             inference_config = Inr reply
        \<and> getitem_str reply ''usage'' = Inr usage
        \<and> getitem_str usage ''inputTokens'' = Inr n_in \<and> py_float env n_in = Inr input_tokens
        \<and> getitem_str usage ''outputTokens'' = Inr n_out \<and> py_float env n_out = Inr output_tokens
        \<and> getitem_str usage ''totalTokens'' = Inr n_total \<and> py_float env n_total = Inr total_tokens
        \<and> getitem_str reply ''metrics'' = Inr metrics
        \<and> getitem_str metrics ''latencyMs'' = Inr n_ms \<and> py_float env n_ms = Inr latency
        \<and> getitem_str reply ''output'' = Inr reply_output
        \<and> getitem_str reply_output ''message'' = Inr message
        \<and> getitem_str message ''content'' = Inr parts
        \<and> getitem_first parts = Inr first
        \<and> getitem_str first ''text'' = Inr model_text
      \<longrightarrow> handle_code_review_request env page_id file_key template = Inr model_text
          \<and> request_flow env req_json template = Inr model_text
          \<and> (template = agent_backend_system_prompt_template
               \<longrightarrow> backend_agent env req_json = Return model_text
                   \<and> http_status (backend_agent env req_json) = 200)
          \<and> (template = agent_frontend_system_prompt_template
               \<longrightarrow> frontend_agent env req_json = Return model_text
                   \<and> http_status (frontend_agent env req_json) = 200))"
proof (intro conjI impI)
  assume "request_flow env req_json agent_backend_system_prompt_template = Inl e"
  then show "backend_agent env req_json = HTTPException 500 ''Something went wrong''"
    and "http_status (backend_agent env req_json) = 500"
    by (simp_all add: backend_agent_def http_status_def)
next
  assume "request_flow env req_json agent_frontend_system_prompt_template = Inl e"
  then show "frontend_agent env req_json = HTTPException 500 ''Something went wrong''"
    and "http_status (frontend_agent env req_json) = 500"
    by (simp_all add: frontend_agent_def http_status_def)
next
  assume "request_flow env req_json agent_backend_system_prompt_template = Inr model_text"
  then show "backend_agent env req_json = Return model_text"
    and "http_status (backend_agent env req_json) = 200"
    by (simp_all add: backend_agent_def http_status_def)
next
  assume "request_flow env req_json agent_frontend_system_prompt_template = Inr model_text"
  then show "frontend_agent env req_json = Return model_text"
    and "http_status (frontend_agent env req_json) = 200"
    by (simp_all add: frontend_agent_def http_status_def)
next
  assume "req_json = Inl e"
  then show "request_flow env req_json template = Inl e"
    by (simp add: request_flow_def bind_exn_Inl)
next
  assume "req_json = Inr body \<and> (dict_get body ''page_id'' PyNone = Inl e \<or> dict_get body ''file_key'' PyNone = Inl e)"
  moreover have "dict_get body ''file_key'' PyNone = Inl e \<Longrightarrow> dict_get body ''page_id'' PyNone = Inl e"
    by (cases body) (simp_all add: dict_get_def)
  ultimately show "request_flow env req_json template = Inl e"
    by (auto simp: request_flow_def bind_exn_Inl bind_exn_Inr)
next
  assume "req_json = Inr body \<and> dict_get body ''page_id'' PyNone = Inr page_id
        \<and> dict_get body ''file_key'' PyNone = Inr file_key"
  then show "request_flow env req_json template = handle_code_review_request env page_id file_key template"
    by (simp add: request_flow_body)
next
  assume "retrieve_code_file_from_s3 env file_key = Inl e"
  then show "handle_code_review_request env page_id file_key template = Inl e"
    by (rule handle_storage_failure)
next
  assume "retrieve_code_file_from_s3 env file_key = Inr code_file
        \<and> requests_get env page_id (CONFLUENCE_URL env) (EMAIL env) (CONFLUENCE_API_TOKEN env) = Inl e"
  then show "handle_code_review_request env page_id file_key template = Inl e"
    by (simp add: handle_fetch_failure fetch_get_failure)
next
  assume "retrieve_code_file_from_s3 env file_key = Inr code_file
        \<and> get_confluence_page_content (requests_get env) page_id (CONFLUENCE_URL env) (EMAIL env)
             (CONFLUENCE_API_TOKEN env) = Inr (PyTuple [title, content])
        \<and> BeautifulSoup env content = Inl e"
  then show "handle_code_review_request env page_id file_key template = Inl e"
    by (simp add: handle_fetched_pair extract_failure bind_exn_Inl)
next
  assume "retrieve_code_file_from_s3 env file_key = Inr code_file
        \<and> get_confluence_page_content (requests_get env) page_id (CONFLUENCE_URL env) (EMAIL env)
             (CONFLUENCE_API_TOKEN env) = Inr (PyTuple [title, content])
        \<and> extract_headers_and_content (BeautifulSoup env) content = Inr tech_choice_doc
        \<and> substitute template [(''output_format'', output_format),
                                 (''tech_choice_doc'', py_str_dict env tech_choice_doc)] = Inl e"
  then show "handle_code_review_request env page_id file_key template = Inl e"
    by (simp add: handle_fetched_pair bind_exn_Inl bind_exn_Inr)
next
  assume a: "retrieve_code_file_from_s3 env file_key = Inr code_file
        \<and> get_confluence_page_content (requests_get env) page_id (CONFLUENCE_URL env) (EMAIL env)
             (CONFLUENCE_API_TOKEN env) = Inr (PyTuple [title, content])
        \<and> extract_headers_and_content (BeautifulSoup env) content = Inr tech_choice_doc
        \<and> substitute template [(''output_format'', output_format),
                                 (''tech_choice_doc'', py_str_dict env tech_choice_doc)] = Inr system_prompt
        \<and> bind_exn (getitem_str (MODEL_IDS env) ''nova-micro'') (\<lambda>m. getitem_str m ''id'') = Inr model_id
        \<and> converse env model_id (format_message ''user'' code_file) (format_prompt system_prompt)
             inference_config = Inl e"
  then have "generate_output env model_id (format_prompt system_prompt) (format_message ''user'' code_file) = Inl e"
    by (simp add: generate_output_converse_failure)
  with a show "handle_code_review_request env page_id file_key template = Inl e"
    by (simp add: handle_fetched_pair bind_exn_Inr)
next
  assume "retrieve_code_file_from_s3 env file_key = Inr code_file
        \<and> get_confluence_page_content (requests_get env) page_id (CONFLUENCE_URL env) (EMAIL env)
             (CONFLUENCE_API_TOKEN env) = Inr (PyTuple [title, content])
        \<and> extract_headers_and_content (BeautifulSoup env) content = Inr tech_choice_doc
        \<and> substitute template [(''output_format'', output_format),
                                 (''tech_choice_doc'', py_str_dict env tech_choice_doc)] = Inr system_prompt
        \<and> bind_exn (getitem_str (MODEL_IDS env) ''nova-micro'') (\<lambda>m. getitem_str m ''id'') = Inr model_id
        \<and> generate_output env model_id (format_prompt system_prompt) (format_message ''user'' code_file)
             = Inl e"
  then show "handle_code_review_request env page_id file_key template = Inl e"
    by (simp add: handle_fetched_pair bind_exn_Inr)
next
  assume a: "req_json = Inr body \<and> dict_get body ''page_id'' PyNone = Inr page_id
        \<and> dict_get body ''file_key'' PyNone = Inr file_key
        \<and> retrieve_code_file_from_s3 env file_key = Inr code_file
        \<and> get_confluence_page_content (requests_get env) page_id (CONFLUENCE_URL env) (EMAIL env)
             (CONFLUENCE_API_TOKEN env) = Inr (PyTuple [title, content])
        \<and> extract_headers_and_content (BeautifulSoup env) content = Inr tech_choice_doc
        \<and> substitute template [(''output_format'', output_format),
                                 (''tech_choice_doc'', py_str_dict env tech_choice_doc)] = Inr system_prompt
        \<and> bind_exn (getitem_str (MODEL_IDS env) ''nova-micro'') (\<lambda>m. getitem_str m ''id'') = Inr model_id
        \<and> converse env model_id (format_message ''user'' code_file) (format_prompt system_prompt)
             inference_config = Inr reply
        \<and> getitem_str reply ''usage'' = Inr usage
        \<and> getitem_str usage ''inputTokens'' = Inr n_in \<and> py_float env n_in = Inr input_tokens
        \<and> getitem_str usage ''outputTokens'' = Inr n_out \<and> py_float env n_out = Inr output_tokens
        \<and> getitem_str usage ''totalTokens'' = Inr n_total \<and> py_float env n_total = Inr total_tokens
        \<and> getitem_str reply ''metrics'' = Inr metrics
        \<and> getitem_str metrics ''latencyMs'' = Inr n_ms \<and> py_float env n_ms = Inr latency
        \<and> getitem_str reply ''output'' = Inr reply_output
        \<and> getitem_str reply_output ''message'' = Inr message
        \<and> getitem_str message ''content'' = Inr parts
        \<and> getitem_first parts = Inr first
        \<and> getitem_str first ''text'' = Inr model_text"
  then have "generate_output env model_id (format_prompt system_prompt) (format_message ''user'' code_file)
      = Inr model_text"
    by (simp add: generate_output_reply)
  with a show h: "handle_code_review_request env page_id file_key template = Inr model_text"
    by (simp add: handle_fetched_pair bind_exn_Inr)
  with a show f: "request_flow env req_json template = Inr model_text"
    by (simp add: request_flow_body)
  {
    assume "template = agent_backend_system_prompt_template"
    with f show "backend_agent env req_json = Return model_text"
      and "http_status (backend_agent env req_json) = 200"
      by (simp_all add: backend_agent_def http_status_def)
  }
  {
    assume "template = agent_frontend_system_prompt_template"
    with f show "frontend_agent env req_json = Return model_text"
      and "http_status (frontend_agent env req_json) = 200"
      by (simp_all add: frontend_agent_def http_status_def)
  }
qed

text \<open>
  The theorem at the failure scenario (the stored file is missing), at a request whose
  body is not JSON, and at the environment in which every step succeeds: there the text
  of the model's reply is what both endpoints return.
\<close>

theorem endpoints_failure_policy_witness:
  "retrieve_code_file_from_s3 missing_file_env (PyStr ''review.js'') = Inl (LibraryError ''NoSuchKey'')
   \<and> dict_get review_request ''page_id'' PyNone = Inr (PyStr ''3539730433'')
   \<and> dict_get review_request ''file_key'' PyNone = Inr (PyStr ''review.js'')
   \<and> request_flow missing_file_env (Inr review_request) agent_backend_system_prompt_template
        = Inl (LibraryError ''NoSuchKey'')
   \<and> backend_agent missing_file_env (Inr review_request) = HTTPException 500 ''Something went wrong''
   \<and> request_flow missing_file_env (Inr review_request) agent_frontend_system_prompt_template
        = Inl (LibraryError ''NoSuchKey'')
   \<and> frontend_agent missing_file_env (Inr review_request) = HTTPException 500 ''Something went wrong''
   \<and> backend_agent missing_file_env (Inl (LibraryError ''JSONDecodeError'')) = HTTPException 500 ''Something went wrong''
   \<and> retrieve_code_file_from_s3 working_env (PyStr ''review.js'') = Inr ''console.log(1)''
   \<and> get_confluence_page_content (requests_get working_env) (PyStr ''3539730433'')
        (CONFLUENCE_URL working_env) (EMAIL working_env) (CONFLUENCE_API_TOKEN working_env)
        = Inr (PyTuple [PyStr ''Standards'', PyStr style_body])
   \<and> extract_headers_and_content (BeautifulSoup working_env) (PyStr style_body)
        = Inr [(''Style'', ''Use 2-space indent.'')]
   \<and> bind_exn (getitem_str (MODEL_IDS working_env) ''nova-micro'') (\<lambda>m. getitem_str m ''id'')
        = Inr (PyStr ''amazon.nova-micro-v1:0'')
   \<and> converse working_env (PyStr ''amazon.nova-micro-v1:0'') (format_message ''user'' ''console.log(1)'')
        (format_prompt ''the prompt'') inference_config = Inr model_reply
   \<and> bind_exn (bind_exn (bind_exn (bind_exn (getitem_str model_reply ''output'')
          (\<lambda>output. getitem_str output ''message'')) (\<lambda>message. getitem_str message ''content''))
          getitem_first) (\<lambda>first. getitem_str first ''text'')
        = Inr (PyStr ''Style: 1. Use semicolons: Complete'')
   \<and> backend_agent working_env (Inr review_request) = Return (PyStr ''Style: 1. Use semicolons: Complete'')
   \<and> http_status (backend_agent working_env (Inr review_request)) = 200
   \<and> frontend_agent working_env (Inr review_request) = Return (PyStr ''Style: 1. Use semicolons: Complete'')
   \<and> http_status (frontend_agent working_env (Inr review_request)) = 200"
proof -
  let ?nokey = "LibraryError ''NoSuchKey''"
  let ?nojson = "LibraryError ''JSONDecodeError''"
  let ?text = "PyStr ''Style: 1. Use semicolons: Complete''"
  let ?id = "PyStr ''3539730433''"
  let ?key = "PyStr ''review.js''"
  let ?model = "PyStr ''amazon.nova-micro-v1:0''"
  let ?doc = "[(''Style'', ''Use 2-space indent.'')]"
  let ?usage = "PyDict [(''inputTokens'', PyInt 120), (''outputTokens'', PyInt 9), (''totalTokens'', PyInt 129)]"
  let ?metrics = "PyDict [(''latencyMs'', PyInt 350)]"
  let ?first = "PyDict [(''text'', ?text)]"
  let ?message = "PyDict [(''role'', PyStr ''assistant''), (''content'', PyList [?first])]"
  let ?output = "PyDict [(''message'', ?message)]"
  have s: "retrieve_code_file_from_s3 missing_file_env ?key = Inl ?nokey"
    by (simp add: retrieve_code_file_from_s3_def missing_file_env_def working_env_def)
  have i1: "dict_get review_request ''page_id'' PyNone = Inr ?id"
    by (simp add: review_request_def dict_get_def)
  have i2: "dict_get review_request ''file_key'' PyNone = Inr ?key"
    by (simp add: review_request_def dict_get_def)
  have hb: "handle_code_review_request missing_file_env ?id ?key agent_backend_system_prompt_template = Inl ?nokey"
    using endpoints_failure_policy [where env = missing_file_env and e = ?nokey and file_key = ?key
        and page_id = ?id and template = agent_backend_system_prompt_template, THEN conjunct2,
        THEN conjunct2, THEN conjunct2, THEN conjunct2, THEN conjunct2, THEN conjunct2,
        THEN conjunct2, THEN conjunct1] s
    by simp
  have hf: "handle_code_review_request missing_file_env ?id ?key agent_frontend_system_prompt_template = Inl ?nokey"
    using s by (simp add: handle_storage_failure)
  from hb i1 i2
  have fb: "request_flow missing_file_env (Inr review_request) agent_backend_system_prompt_template = Inl ?nokey"
    by (simp add: request_flow_body)
  from hf i1 i2
  have ff: "request_flow missing_file_env (Inr review_request) agent_frontend_system_prompt_template = Inl ?nokey"
    by (simp add: request_flow_body)
  from fb have b: "backend_agent missing_file_env (Inr review_request) = HTTPException 500 ''Something went wrong''"
    using endpoints_failure_policy [where env = missing_file_env and req_json = "Inr review_request"
        and e = ?nokey, THEN conjunct1]
    by simp
  from ff have f: "frontend_agent missing_file_env (Inr review_request) = HTTPException 500 ''Something went wrong''"
    using endpoints_failure_policy [where env = missing_file_env and req_json = "Inr review_request"
        and e = ?nokey, THEN conjunct2, THEN conjunct1]
    by simp
  have "request_flow missing_file_env (Inl ?nojson) agent_backend_system_prompt_template = Inl ?nojson"
    by (simp add: request_flow_def bind_exn_Inl)
  then have g: "backend_agent missing_file_env (Inl ?nojson) = HTTPException 500 ''Something went wrong''"
    using endpoints_failure_policy [where env = missing_file_env and req_json = "Inl ?nojson"
        and e = ?nojson, THEN conjunct1]
    by simp
  have c: "retrieve_code_file_from_s3 working_env ?key = Inr ''console.log(1)''"
    by (simp add: retrieve_code_file_from_s3_def working_env_def)
  have w: "get_confluence_page_content (requests_get working_env) ?id
        (CONFLUENCE_URL working_env) (EMAIL working_env) (CONFLUENCE_API_TOKEN working_env)
        = Inr (PyTuple [PyStr ''Standards'', PyStr style_body])"
    by code_simp
  have x: "extract_headers_and_content (BeautifulSoup working_env) (PyStr style_body) = Inr ?doc"
    by code_simp
  have m: "bind_exn (getitem_str (MODEL_IDS working_env) ''nova-micro'') (\<lambda>m. getitem_str m ''id'') = Inr ?model"
    by code_simp
  have cv: "\<And>p. converse working_env ?model (format_message ''user'' ''console.log(1)'')
        (format_prompt p) inference_config = Inr model_reply"
    by (simp add: working_env_def)
  have r: "bind_exn (bind_exn (bind_exn (bind_exn (getitem_str model_reply ''output'')
          (\<lambda>output. getitem_str output ''message'')) (\<lambda>message. getitem_str message ''content''))
          getitem_first) (\<lambda>first. getitem_str first ''text'') = Inr ?text"
    by code_simp
  have u: "getitem_str model_reply ''usage'' = Inr ?usage"
    and u1: "getitem_str ?usage ''inputTokens'' = Inr (PyInt 120)"
    and u2: "getitem_str ?usage ''outputTokens'' = Inr (PyInt 9)"
    and u3: "getitem_str ?usage ''totalTokens'' = Inr (PyInt 129)"
    and me: "getitem_str model_reply ''metrics'' = Inr ?metrics"
    and m1: "getitem_str ?metrics ''latencyMs'' = Inr (PyInt 350)"
    and o1: "getitem_str model_reply ''output'' = Inr ?output"
    and o2: "getitem_str ?output ''message'' = Inr ?message"
    and o3: "getitem_str ?message ''content'' = Inr (PyList [?first])"
    and o4: "getitem_first (PyList [?first]) = Inr ?first"
    and o5: "getitem_str ?first ''text'' = Inr ?text"
    by (simp_all add: model_reply_def getitem_str_def getitem_first_def)
  have fl: "\<And>n. py_float working_env (PyInt n) = Inr (PyFloat n 0)"
    by (simp add: working_env_def number_float_def)
  have ok: "\<And>t p. substitute t [(''output_format'', output_format),
          (''tech_choice_doc'', py_str_dict working_env ?doc)] = Inr p \<Longrightarrow>
      handle_code_review_request working_env ?id ?key t = Inr ?text
      \<and> request_flow working_env (Inr review_request) t = Inr ?text
      \<and> (t = agent_backend_system_prompt_template
           \<longrightarrow> backend_agent working_env (Inr review_request) = Return ?text
               \<and> http_status (backend_agent working_env (Inr review_request)) = 200)
      \<and> (t = agent_frontend_system_prompt_template
           \<longrightarrow> frontend_agent working_env (Inr review_request) = Return ?text
               \<and> http_status (frontend_agent working_env (Inr review_request)) = 200)"
  proof -
    fix t p
    assume sub: "substitute t [(''output_format'', output_format),
          (''tech_choice_doc'', py_str_dict working_env ?doc)] = Inr p"
    note inst = endpoints_failure_policy [where env = working_env and req_json = "Inr review_request"
        and body = review_request and page_id = ?id and file_key = ?key and template = t
        and code_file = "''console.log(1)''" and title = "PyStr ''Standards''"
        and content = "PyStr style_body" and tech_choice_doc = ?doc and system_prompt = p
        and model_id = ?model and reply = model_reply and usage = ?usage
        and n_in = "PyInt 120" and input_tokens = "PyFloat 120 0"
        and n_out = "PyInt 9" and output_tokens = "PyFloat 9 0"
        and n_total = "PyInt 129" and total_tokens = "PyFloat 129 0"
        and metrics = ?metrics and n_ms = "PyInt 350" and latency = "PyFloat 350 0"
        and reply_output = ?output and message = ?message and parts = "PyList [?first]"
        and first = ?first and model_text = ?text, THEN conjunct2,
        THEN conjunct2, THEN conjunct2, THEN conjunct2, THEN conjunct2, THEN conjunct2,
        THEN conjunct2, THEN conjunct2, THEN conjunct2, THEN conjunct2, THEN conjunct2,
        THEN conjunct2, THEN conjunct2]
    show "handle_code_review_request working_env ?id ?key t = Inr ?text
      \<and> request_flow working_env (Inr review_request) t = Inr ?text
      \<and> (t = agent_backend_system_prompt_template
           \<longrightarrow> backend_agent working_env (Inr review_request) = Return ?text
               \<and> http_status (backend_agent working_env (Inr review_request)) = 200)
      \<and> (t = agent_frontend_system_prompt_template
           \<longrightarrow> frontend_agent working_env (Inr review_request) = Return ?text
               \<and> http_status (frontend_agent working_env (Inr review_request)) = 200)"
      by (rule inst [THEN mp])
        (simp only: i1 i2 c w x sub m cv u u1 u2 u3 me m1 o1 o2 o3 o4 o5 fl simp_thms)
  qed
  obtain pb where "substitute agent_backend_system_prompt_template [(''output_format'', output_format),
          (''tech_choice_doc'', py_str_dict working_env ?doc)] = Inr pb"
    using substitute_backend by blast
  from ok [OF this] have rb: "backend_agent working_env (Inr review_request) = Return ?text"
    and sb: "http_status (backend_agent working_env (Inr review_request)) = 200"
    by blast+
  obtain pf where "substitute agent_frontend_system_prompt_template [(''output_format'', output_format),
          (''tech_choice_doc'', py_str_dict working_env ?doc)] = Inr pf"
    using substitute_frontend by blast
  from ok [OF this] have rf: "frontend_agent working_env (Inr review_request) = Return ?text"
    and sf: "http_status (frontend_agent working_env (Inr review_request)) = 200"
    by blast+
  from s i1 i2 fb b ff f g c w x m cv [of "''the prompt''"] r rb sb rf sf show ?thesis
    by blast
qed

text \<open>
  C10. Unpacking a string into two targets raises \<^verbatim>\<open>ValueError\<close> unless its length
  is 2, and the error description is never that short. So when the wiki answers with a
  status other than 200, \<^verbatim>\<open>handle_code_review_request\<close> raises (\<^verbatim>\<open>ValueError\<close> at
  the unpacking, when the storage fetch before it succeeded) and both endpoints answer with
  the fixed status 500.
\<close>

theorem wiki_failure_surfaces:
  "(length s \<noteq> 2 \<longrightarrow> unpack2 (PyStr s) = Inl ValueError)
   \<and> (requests_get env page_id (CONFLUENCE_URL env) (EMAIL env) (CONFLUENCE_API_TOKEN env) = Inr response
       \<and> status_code response \<noteq> 200
      \<longrightarrow> unpack2 (PyStr (''Error: '' @ str_int (status_code response) @ '' - '' @ response_text response))
            = Inl ValueError
        \<and> (retrieve_code_file_from_s3 env file_key = Inr code_file
             \<longrightarrow> handle_code_review_request env page_id file_key template = Inl ValueError)
        \<and> (\<exists>e. handle_code_review_request env page_id file_key template = Inl e)
        \<and> (dict_get body ''page_id'' PyNone = Inr page_id \<and> dict_get body ''file_key'' PyNone = Inr file_key
             \<longrightarrow> backend_agent env (Inr body) = HTTPException 500 ''Something went wrong''
               \<and> frontend_agent env (Inr body) = HTTPException 500 ''Something went wrong''))"
proof (intro conjI impI)
  assume "length s \<noteq> 2"
  then show "unpack2 (PyStr s) = Inl ValueError"
    by (rule unpack2_str)
next
  assume a: "requests_get env page_id (CONFLUENCE_URL env) (EMAIL env) (CONFLUENCE_API_TOKEN env) = Inr response
       \<and> status_code response \<noteq> 200"
  let ?msg = "PyStr (''Error: '' @ str_int (status_code response) @ '' - '' @ response_text response)"
  from a have fetched: "get_confluence_page_content (requests_get env) page_id (CONFLUENCE_URL env)
      (EMAIL env) (CONFLUENCE_API_TOKEN env) = Inr ?msg"
    by (simp add: fetch_not_ok)
  show u: "unpack2 ?msg = Inl ValueError"
    by (rule unpack2_error_string)
  have raised: "\<And>t. \<exists>e. handle_code_review_request env page_id file_key t = Inl e"
  proof -
    fix t
    show "\<exists>e. handle_code_review_request env page_id file_key t = Inl e"
    proof (cases "retrieve_code_file_from_s3 env file_key")
      case (Inl e)
      then show ?thesis by (auto dest: handle_storage_failure)
    next
      case (Inr code)
      from Inr fetched u have "handle_code_review_request env page_id file_key t = Inl ValueError"
        by (rule handle_unpack_failure)
      then show ?thesis by blast
    qed
  qed
  show "\<exists>e. handle_code_review_request env page_id file_key template = Inl e"
    by (rule raised)
  {
    assume "retrieve_code_file_from_s3 env file_key = Inr code_file"
    from this fetched u show "handle_code_review_request env page_id file_key template = Inl ValueError"
      by (rule handle_unpack_failure)
  }
  assume ids: "dict_get body ''page_id'' PyNone = Inr page_id \<and> dict_get body ''file_key'' PyNone = Inr file_key"
  from raised obtain e where "handle_code_review_request env page_id file_key agent_backend_system_prompt_template = Inl e"
    by blast
  with ids show "backend_agent env (Inr body) = HTTPException 500 ''Something went wrong''"
    by (simp add: backend_agent_def request_flow_body)
  from raised obtain e' where "handle_code_review_request env page_id file_key agent_frontend_system_prompt_template = Inl e'"
    by blast
  with ids show "frontend_agent env (Inr body) = HTTPException 500 ''Something went wrong''"
    by (simp add: frontend_agent_def request_flow_body)
qed

text \<open>
  The theorem at the environment whose wiki answers 404.
\<close>

theorem wiki_failure_surfaces_witness:
  "length ''Error: 404 - Not Found'' = 22
   \<and> unpack2 (PyStr ''Error: 404 - Not Found'') = Inl ValueError
   \<and> requests_get wiki_down_env (PyStr ''3539730433'') (CONFLUENCE_URL wiki_down_env) (EMAIL wiki_down_env)
        (CONFLUENCE_API_TOKEN wiki_down_env) = Inr not_found_response
   \<and> status_code not_found_response = 404
   \<and> retrieve_code_file_from_s3 wiki_down_env (PyStr ''review.js'') = Inr ''console.log(1)''
   \<and> handle_code_review_request wiki_down_env (PyStr ''3539730433'') (PyStr ''review.js'')
        agent_backend_system_prompt_template = Inl ValueError
   \<and> backend_agent wiki_down_env (Inr review_request) = HTTPException 500 ''Something went wrong''
   \<and> frontend_agent wiki_down_env (Inr review_request) = HTTPException 500 ''Something went wrong''"
proof -
  note inst = wiki_failure_surfaces [of "''Error: 404 - Not Found''" wiki_down_env "PyStr ''3539730433''"
      not_found_response "PyStr ''review.js''" "''console.log(1)''" agent_backend_system_prompt_template
      review_request]
  have l: "length ''Error: 404 - Not Found'' = 22" by simp
  have g: "requests_get wiki_down_env (PyStr ''3539730433'') (CONFLUENCE_URL wiki_down_env) (EMAIL wiki_down_env)
        (CONFLUENCE_API_TOKEN wiki_down_env) = Inr not_found_response"
    by (simp add: wiki_down_env_def working_env_def responding_def)
  have s: "status_code not_found_response = 404"
    by (simp add: not_found_response_def)
  have c: "retrieve_code_file_from_s3 wiki_down_env (PyStr ''review.js'') = Inr ''console.log(1)''"
    by (simp add: retrieve_code_file_from_s3_def wiki_down_env_def working_env_def)
  have i1: "dict_get review_request ''page_id'' PyNone = Inr (PyStr ''3539730433'')"
    by (simp add: review_request_def dict_get_def)
  have i2: "dict_get review_request ''file_key'' PyNone = Inr (PyStr ''review.js'')"
    by (simp add: review_request_def dict_get_def)
  from l have l': "length ''Error: 404 - Not Found'' \<noteq> 2" by simp
  from s have s': "status_code not_found_response \<noteq> 200" by simp
  from inst l' have u: "unpack2 (PyStr ''Error: 404 - Not Found'') = Inl ValueError"
    by blast
  from inst g s' c have h: "handle_code_review_request wiki_down_env (PyStr ''3539730433'') (PyStr ''review.js'')
        agent_backend_system_prompt_template = Inl ValueError"
    by blast
  from inst g s' i1 i2 have b: "backend_agent wiki_down_env (Inr review_request) = HTTPException 500 ''Something went wrong''"
    by blast
  from inst g s' i1 i2 have f: "frontend_agent wiki_down_env (Inr review_request) = HTTPException 500 ''Something went wrong''"
    by blast
  from l u g s c h b f show ?thesis by blast
qed

end
